theory Spec2Isabelle
  imports Main "HOL-Library.Word"
begin

section \<open>Data model of hw/ipc_client.c\<close>

text \<open>
  The file drives an IPC session of a virtio network device: \<open>ipc_init\<close> creates the
  session and a retry timer, the timer callback \<open>ipc_connect_to_server\<close> attempts the
  handshake, the read callback \<open>ipc_reader\<close> dispatches one message, and \<open>ipc_exit\<close>
  tears the session down. Everything the file touches is kept in one record: the fields
  of \<open>VirtIODevice\<close> that the file reads and writes, the link flag of the network
  device, and the part of the host that the file acts on (descriptor table, read
  handlers, timers, the millisecond clock). Every call that leaves the file is appended
  to \<open>calls\<close>, oldest first, with its arguments and (where the code branches on it) its
  return value.
\<close>

type_synonym uint32_t = "32 word"
type_synonym uint16_t = "16 word"

text \<open>\<open>RAMBlock\<close>: the three fields that \<open>init_client\<close> reads.\<close>

record RAMBlock =
  blk_offset :: nat
  blk_fd :: int
  blk_length :: nat

text \<open>
  Modelled from the spec: \<open>ipc_node\<close> (declared in ipc_node.h, which is not part of the
  sources at hand). The spec's Session holds an Endpoint descriptor, a node id and a
  memory descriptor (backing handle and size); these are exactly the arguments that
  \<open>init_client\<close> hands to \<open>ipc_node_init\<close>.
\<close>

record ipc_node =
  node_nid :: uint32_t
  node_fd :: int
  node_ram_fd :: int
  node_ram_size :: nat

text \<open>
  \<open>ipc_msg_type\<close>: the code names one enumerator, \<open>IPC_MESSAGE_TYPE_KICK\<close>; every other
  value takes the \<open>default\<close> branch of the switch.
\<close>

datatype ipc_msg_type = IPC_MESSAGE_TYPE_KICK | IPC_MESSAGE_TYPE_other nat

text \<open>The only read handler this file ever registers.\<close>

datatype fd_read_handler = Ipc_reader

datatype call =
    Perror string
  | Fprintf_stderr string
  | Ipc_socket int
  | Ipc_connect int string nat int
  | Ipc_client_init_sequence ipc_node uint32_t int int
  | Dup2 int int int
  | Close int
  | Shutdown_rdwr int
  | Ipc_client_reconfigure ipc_node int
  | Ipc_client_recv ipc_node int
  | Virtio_net_set_link_down int
  | Qemu_set_fd_handler int "fd_read_handler option"
  | Qemu_new_timer_ms nat
  | Qemu_mod_timer nat int
  | Qemu_del_timer nat
  | Qemu_free_timer nat
  | Malloc bool
  | Ipc_node_init uint32_t int int nat int
  | Free ipc_node
  | Virtio_get_queue uint16_t
  | Virtio_notify uint16_t

record world =
  ipc :: "ipc_node option"
  socketpath :: string
  nid :: uint32_t
  cinterval :: uint32_t
  ts :: nat
  link_down :: bool
  open_fds :: "int set"
  fd_handler :: "int \<rightharpoonup> fd_read_handler"
  live_timers :: "nat set"
  armed :: "nat \<rightharpoonup> int"
  clock :: int
  calls :: "call list"

text \<open>
  \<open>ipc\<close> is \<open>vdev->ipc\<close> (\<open>None\<close> is the null pointer), \<open>ts\<close> is the timer handle stored
  in \<open>vdev->ts\<close>, \<open>cinterval\<close> has the type of the parameter of \<open>ipc_init\<close> it is
  assigned from. \<open>link_down\<close> is the flag that \<open>virtio_net_set_link_down\<close> sets.
  \<open>armed t = Some d\<close> says that timer \<open>t\<close> is pending with deadline \<open>d\<close> (milliseconds
  of \<open>rt_clock\<close>); \<open>clock\<close> is what \<open>qemu_get_clock_ms(rt_clock)\<close> returns now, an
  \<open>int64_t\<close> that is taken as an unbounded integer here.
\<close>

section \<open>What the environment answers\<close>

text \<open>
  The helpers of ipc_node.c, the C library and the kernel are not in the file. Their
  return values are inputs of the model, one field per call site, and the code's own
  tests (\<open>< 0\<close>, \<open>\<noteq> 0\<close>) are applied to them as written. An \<open>errno\<close> field is the
  value that the statement \<open>return -errno\<close> of that path reads. \<open>linux_target\<close> is the
  condition of the \<open>#if\<close> around the memory lookup, \<open>QEMU_BELOW_4G_RAM_END\<close> is the
  macro of that name if it is defined, \<open>new_timer\<close> the handle that
  \<open>qemu_new_timer_ms\<close> returns.
\<close>

record init_env =
  linux_target :: bool
  ram_blocks :: "RAMBlock list"
  i_socket_ret :: int
  i_socket_errno :: int
  malloc_ok :: bool
  node_init_ret :: int
  node_init_errno :: int
  new_timer :: nat

record conn_env =
  socket_ret :: int
  socket_errno :: int
  connect_ret :: int
  QEMU_BELOW_4G_RAM_END :: "uint32_t option"
  init_sequence_ret :: int
  dup2_ret :: int
  reconfigure_ret :: int

record recv_env =
  recv_ret :: int
  recv_mtype :: ipc_msg_type
  recv_curq :: uint16_t

definition EFAULT :: int where
  "EFAULT = 14"

section \<open>External calls\<close>

definition log_call :: "call \<Rightarrow> world \<Rightarrow> world" where
  "log_call c s = s\<lparr>calls := calls s @ [c]\<rparr>"

definition perror :: "string \<Rightarrow> world \<Rightarrow> world" where
  "perror msg s = log_call (Perror msg) s"

definition fprintf_stderr :: "string \<Rightarrow> world \<Rightarrow> world" where
  "fprintf_stderr msg s = log_call (Fprintf_stderr msg) s"

text \<open>
  Modelled from the spec: the socket primitives (\<open>ipc_socket\<close>, \<open>dup2\<close>, \<open>close\<close>,
  \<open>shutdown\<close>) act on the table of open descriptors. A successful \<open>ipc_socket\<close> opens
  the descriptor it returns, a successful \<open>dup2\<close> leaves the target open, \<open>close\<close>
  removes the descriptor, \<open>shutdown\<close> leaves the table alone.
\<close>

definition ipc_socket :: "int \<Rightarrow> world \<Rightarrow> world" where
  "ipc_socket r s =
     log_call (Ipc_socket r) (if 0 \<le> r then s\<lparr>open_fds := insert r (open_fds s)\<rparr> else s)"

definition dup2 :: "int \<Rightarrow> int \<Rightarrow> int \<Rightarrow> world \<Rightarrow> world" where
  "dup2 oldfd newfd r s =
     log_call (Dup2 oldfd newfd r)
       (if 0 \<le> r then s\<lparr>open_fds := insert newfd (open_fds s)\<rparr> else s)"

definition close :: "int \<Rightarrow> world \<Rightarrow> world" where
  "close fd s = log_call (Close fd) (s\<lparr>open_fds := open_fds s - {fd}\<rparr>)"

definition shutdown :: "int \<Rightarrow> world \<Rightarrow> world" where
  "shutdown fd s = log_call (Shutdown_rdwr fd) s"

text \<open>
  Modelled from the spec: \<open>ipc_get_fd\<close> (ipc_node.c) returns the Session's stable
  descriptor identifier, the descriptor the node was initialised with.
\<close>

definition ipc_get_fd :: "ipc_node \<Rightarrow> int" where
  "ipc_get_fd c = node_fd c"

text \<open>
  Modelled from the spec: the device facade. \<open>virtio_net_set_link_down\<close> is the
  link-status setter, \<open>virtio_get_queue\<close> followed by \<open>virtio_notify\<close> is
  \<open>notifyQueue\<close>.
\<close>

definition virtio_net_set_link_down :: "int \<Rightarrow> world \<Rightarrow> world" where
  "virtio_net_set_link_down ld s =
     log_call (Virtio_net_set_link_down ld) (s\<lparr>link_down := (ld \<noteq> 0)\<rparr>)"

definition virtio_get_queue :: "uint16_t \<Rightarrow> world \<Rightarrow> world" where
  "virtio_get_queue q s = log_call (Virtio_get_queue q) s"

definition virtio_notify :: "uint16_t \<Rightarrow> world \<Rightarrow> world" where
  "virtio_notify q s = log_call (Virtio_notify q) s"

text \<open>
  Modelled from the spec: the host's event loop and timer facility (\<open>call this function
  when descriptor X is readable\<close>, \<open>call this function once after T milliseconds\<close>, and
  deregistration). Registering with null callbacks removes the handler. A timer
  operation on a handle that is not a live timer dereferences a dangling pointer: the
  model stops there (\<open>None\<close>).
\<close>

definition qemu_set_fd_handler :: "int \<Rightarrow> fd_read_handler option \<Rightarrow> world \<Rightarrow> world" where
  "qemu_set_fd_handler fd h s =
     log_call (Qemu_set_fd_handler fd h) (s\<lparr>fd_handler := (fd_handler s)(fd := h)\<rparr>)"

definition qemu_new_timer_ms :: "nat \<Rightarrow> world \<Rightarrow> world" where
  "qemu_new_timer_ms t s =
     log_call (Qemu_new_timer_ms t)
       (s\<lparr>live_timers := insert t (live_timers s), armed := (armed s)(t := None)\<rparr>)"

definition qemu_mod_timer :: "nat \<Rightarrow> int \<Rightarrow> world \<Rightarrow> world option" where
  "qemu_mod_timer t expire s =
     (if t \<in> live_timers s
      then Some (log_call (Qemu_mod_timer t expire) (s\<lparr>armed := (armed s)(t \<mapsto> expire)\<rparr>))
      else None)"

definition qemu_del_timer :: "nat \<Rightarrow> world \<Rightarrow> world option" where
  "qemu_del_timer t s =
     (if t \<in> live_timers s
      then Some (log_call (Qemu_del_timer t) (s\<lparr>armed := (armed s)(t := None)\<rparr>))
      else None)"

definition qemu_free_timer :: "nat \<Rightarrow> world \<Rightarrow> world option" where
  "qemu_free_timer t s =
     (if t \<in> live_timers s
      then Some (log_call (Qemu_free_timer t)
                  (s\<lparr>live_timers := live_timers s - {t}, armed := (armed s)(t := None)\<rparr>))
      else None)"

section \<open>The functions of the file\<close>

definition set_link_status :: "int \<Rightarrow> world \<Rightarrow> world" where
  "set_link_status ld s = virtio_net_set_link_down ld s"

text \<open>
  The loop over \<open>ram_list.blocks\<close>: every block at offset 0 overwrites \<open>ram_fd\<close> and
  \<open>ram_size\<close>, so the last one wins. \<open>ram_size\<close> is uninitialised in C until a block
  is found; it is read only when \<open>ram_fd \<noteq> -1\<close>, and stands as 0 before that.
\<close>

definition find_ram :: "bool \<Rightarrow> RAMBlock list \<Rightarrow> int \<times> nat" where
  "find_ram linux blocks =
     (if linux
      then foldl (\<lambda>(ram_fd, ram_size) block.
                    if blk_offset block = 0 then (blk_fd block, blk_length block)
                    else (ram_fd, ram_size))
                 (- 1, 0) blocks
      else (- 1, 0))"

definition init_client :: "init_env \<Rightarrow> world \<Rightarrow> int \<times> world" where
  "init_client e s =
     (case find_ram (linux_target e) (ram_blocks e) of (ram_fd, ram_size) \<Rightarrow>
        if ram_fd = - 1 then (- EFAULT, perror ''failed to find ram addr'' s)
        else
          let fd = i_socket_ret e; s1 = ipc_socket fd s in
          if fd < 0 then (- i_socket_errno e, perror ''failed to open a socket'' s1)
          else
            let s2 = log_call (Malloc (malloc_ok e)) s1 in
            if \<not> malloc_ok e then (- EFAULT, perror ''failed to malloc'' s2)
            else
              let c = \<lparr>node_nid = nid s, node_fd = fd, node_ram_fd = ram_fd,
                       node_ram_size = ram_size\<rparr>;
                  s3 = log_call (Ipc_node_init (nid s) fd ram_fd ram_size (node_init_ret e)) s2
              in
              if node_init_ret e \<noteq> 0
              then (- node_init_errno e,
                    log_call (Free c) (perror ''failed to allocate a client'' s3))
              else (0, s3\<lparr>ipc := Some c\<rparr>))"

definition ipc_set_connector :: "world \<Rightarrow> world option" where
  "ipc_set_connector s = qemu_mod_timer (ts s) (clock s + uint (cinterval s * 1000)) s"

text \<open>
  \<open>ipc_reader\<close> is registered with the device as its argument, so the null check of
  that argument always passes; the check of the Session slot is the first case below.
  \<open>ipc_client_recv\<close> answers with its return value, the message type and the queue
  index.
\<close>

definition ipc_reader :: "recv_env \<Rightarrow> world \<Rightarrow> world option" where
  "ipc_reader e s =
     (case ipc s of
        None \<Rightarrow> Some s
      | Some c \<Rightarrow>
          let s1 = log_call (Ipc_client_recv c (recv_ret e)) s in
          if recv_ret e < 0 then
            let s2 = perror (''can'' @ [CHR 0x27] @ ''t receive data from a server'') s1;
                fd = ipc_get_fd c;
                s3 = qemu_set_fd_handler fd None s2;
                s4 = shutdown fd s3;
                s5 = set_link_status 1 s4
            in ipc_set_connector s5
          else
            (case recv_mtype e of
               IPC_MESSAGE_TYPE_KICK \<Rightarrow>
                 Some (virtio_notify (recv_curq e) (virtio_get_queue (recv_curq e) s1))
             | IPC_MESSAGE_TYPE_other k \<Rightarrow>
                 Some (fprintf_stderr (''invalid ipc message type'' @ [CHR 0x0A]) s1)))"

definition lowmem_limit :: "conn_env \<Rightarrow> uint32_t" where
  "lowmem_limit e = (case QEMU_BELOW_4G_RAM_END e of Some v \<Rightarrow> v | None \<Rightarrow> 0xe0000000)"

definition err1 :: "int \<Rightarrow> world \<Rightarrow> int \<times> world" where
  "err1 fd s = (- EFAULT, close fd s)"

definition err2 :: "int \<Rightarrow> world \<Rightarrow> int \<times> world" where
  "err2 fd s = (- EFAULT, shutdown fd s)"

text \<open>
  \<open>connect_to_server\<close> passes \<open>vdev->ipc\<close> to \<open>ipc_client_init_sequence\<close> and
  \<open>ipc_get_fd\<close> without a null check; with an empty Session slot the model stops
  (\<open>None\<close>).
\<close>

definition connect_to_server :: "conn_env \<Rightarrow> world \<Rightarrow> (int \<times> world) option" where
  "connect_to_server e s =
     (let fd = socket_ret e; s1 = ipc_socket fd s in
      if fd < 0 then Some (- socket_errno e, perror ''failed to open a socket'' s1)
      else
        let s2 = log_call (Ipc_connect fd (socketpath s) (length (socketpath s))
                             (connect_ret e)) s1 in
        if connect_ret e \<noteq> 0 then Some (err1 fd (perror ''failed to connect'' s2))
        else
          (case ipc s of
             None \<Rightarrow> None
           | Some c \<Rightarrow>
               let s3 = log_call (Ipc_client_init_sequence c (lowmem_limit e) fd
                                    (init_sequence_ret e)) s2 in
               if init_sequence_ret e < 0
               then Some (err1 fd (perror ''init sequence failed'' s3))
               else
                 let newfd = ipc_get_fd c; s4 = dup2 fd newfd (dup2_ret e) s3 in
                 if dup2_ret e < 0 then Some (err1 fd (perror ''dup2 failed'' s4))
                 else
                   let s5 = close fd s4;
                       s6 = log_call (Ipc_client_reconfigure c (reconfigure_ret e)) s5 in
                   if reconfigure_ret e < 0
                   then Some (err2 newfd (perror ''reconfigure failed'' s6))
                   else Some (0, qemu_set_fd_handler newfd (Some Ipc_reader)
                                   (set_link_status 0 s6))))"

definition ipc_connect_to_server :: "conn_env \<Rightarrow> world \<Rightarrow> world option" where
  "ipc_connect_to_server e s =
     (case connect_to_server e s of
        None \<Rightarrow> None
      | Some (r, s') \<Rightarrow> if r \<noteq> 0 then ipc_set_connector s' else Some s')"

definition ipc_init :: "string \<Rightarrow> uint32_t \<Rightarrow> uint32_t \<Rightarrow> init_env \<Rightarrow> world \<Rightarrow> world option" where
  "ipc_init path n ci e s =
     (case init_client e (s\<lparr>socketpath := path, nid := n, cinterval := ci\<rparr>) of
        (r, s1) \<Rightarrow>
          if r \<noteq> 0
          then Some (fprintf_stderr
                       (''Fatal error: can'' @ [CHR 0x27] @ ''t init ipc node structure''
                          @ [CHR 0x0A]) s1)
          else ipc_set_connector ((qemu_new_timer_ms (new_timer e) s1)\<lparr>ts := new_timer e\<rparr>))"

definition ipc_exit :: "world \<Rightarrow> world option" where
  "ipc_exit s =
     (case ipc s of
        None \<Rightarrow> Some s
      | Some c \<Rightarrow>
          (case qemu_del_timer (ts s) s of
             None \<Rightarrow> None
           | Some s1 \<Rightarrow>
               (case qemu_free_timer (ts s1) s1 of
                  None \<Rightarrow> None
                | Some s2 \<Rightarrow>
                    let fd = ipc_get_fd c;
                        s3 = qemu_set_fd_handler fd None s2;
                        s4 = close fd s3;
                        s5 = set_link_status 1 s4;
                        s6 = log_call (Free c) s5
                    in Some (s6\<lparr>ipc := None\<rparr>))))"

section \<open>The host's event loop\<close>

text \<open>
  Modelled from the spec: the event loop is single-threaded and delivers two classes of
  callback, readiness on a descriptor and timer fire; no two callbacks overlap. A timer
  is one-shot: the host takes it off the pending list, no earlier than its deadline,
  and then runs its callback. A read handler runs only while it is registered.
  \<open>Teardown\<close> is the device calling \<open>ipc_exit\<close>; \<open>Advance\<close> lets time pass.
\<close>

datatype event =
    Timer_fire conn_env
  | Fd_readable int recv_env
  | Teardown
  | Advance nat

definition host_step :: "event \<Rightarrow> world \<Rightarrow> world option" where
  "host_step ev s =
     (case ev of
        Timer_fire e \<Rightarrow>
          (case armed s (ts s) of
             None \<Rightarrow> Some s
           | Some d \<Rightarrow>
               ipc_connect_to_server e
                 (s\<lparr>armed := (armed s)(ts s := None), clock := max (clock s) d\<rparr>))
      | Fd_readable fd e \<Rightarrow>
          (case fd_handler s fd of
             None \<Rightarrow> Some s
           | Some Ipc_reader \<Rightarrow> ipc_reader e s)
      | Teardown \<Rightarrow> ipc_exit s
      | Advance n \<Rightarrow> Some (s\<lparr>clock := clock s + int n\<rparr>))"

fun run :: "event list \<Rightarrow> world \<Rightarrow> world option" where
  "run [] s = Some s"
| "run (ev # evs) s = (case host_step ev s of None \<Rightarrow> None | Some s' \<Rightarrow> run evs s')"

text \<open>A session: \<open>ipc_init\<close> on a device, then the events the host delivers.\<close>

definition session_run ::
  "string \<Rightarrow> uint32_t \<Rightarrow> uint32_t \<Rightarrow> init_env \<Rightarrow> event list \<Rightarrow> world \<Rightarrow> world option" where
  "session_run path n ci ie evs s =
     (case ipc_init path n ci ie s of None \<Rightarrow> None | Some s0 \<Rightarrow> run evs s0)"

text \<open>
  The device before \<open>ipc_init\<close>: the structure is zero-filled (null Session slot, null
  timer), nothing of this file is registered with the host. The link flag is whatever
  the network device set up, the file never initialises it: it is a parameter, as are
  the open descriptors and the time.
\<close>

definition zeroed_device :: "bool \<Rightarrow> int set \<Rightarrow> int \<Rightarrow> world" where
  "zeroed_device ld fds now =
     \<lparr>ipc = None, socketpath = [], nid = 0, cinterval = 0, ts = 0, link_down = ld,
      open_fds = fds, fd_handler = Map.empty, live_timers = {}, armed = Map.empty,
      clock = now, calls = []\<rparr>"

text \<open>
  The retry scenario of an absent peer: the timer fires at its deadline, one connection
  attempt per environment answer, and the time of every attempt is recorded. The run
  ends early when no timer is pending.
\<close>

fun retry_run :: "conn_env list \<Rightarrow> world \<Rightarrow> (int list \<times> world) option" where
  "retry_run [] s = Some ([], s)"
| "retry_run (e # es) s =
     (case armed s (ts s) of
        None \<Rightarrow> Some ([], s)
      | Some d \<Rightarrow>
          (case host_step (Timer_fire e) s of
             None \<Rightarrow> None
           | Some s1 \<Rightarrow>
               (case retry_run es s1 of
                  None \<Rightarrow> None
                | Some (stamps, s2) \<Rightarrow> Some (clock s1 # stamps, s2))))"

section \<open>Predicates of the claims\<close>

text \<open>
  The code has no state variable. CONNECTED is read off the state the way the spec
  defines it, as the state in which the read callback is installed: a Session exists
  and \<open>ipc_reader\<close> is registered on its stable descriptor. LinkStatus is UP when
  \<open>link_down\<close> is false.
\<close>

definition connected :: "world \<Rightarrow> bool" where
  "connected s =
     (case ipc s of None \<Rightarrow> False | Some c \<Rightarrow> fd_handler s (ipc_get_fd c) = Some Ipc_reader)"

definition linked :: "world \<Rightarrow> bool" where
  "linked s = ((\<not> link_down s) = connected s)"

text \<open>The answers that make a connection attempt fail, one disjunct per test of the code.\<close>

definition conn_failed :: "conn_env \<Rightarrow> bool" where
  "conn_failed e =
     (socket_ret e < 0 \<or> connect_ret e \<noteq> 0 \<or> init_sequence_ret e < 0 \<or> dup2_ret e < 0 \<or>
      reconfigure_ret e < 0)"

text \<open>
  A failed call leaves a non-zero \<open>errno\<close> (the C library never resets it to 0). The two
  functions return \<open>-errno\<close> on some paths, so this is what makes their result non-zero.
\<close>

definition conn_errno_set :: "conn_env \<Rightarrow> bool" where
  "conn_errno_set e = (socket_ret e < 0 \<longrightarrow> socket_errno e \<noteq> 0)"

definition init_errno_set :: "init_env \<Rightarrow> bool" where
  "init_errno_set ie =
     ((i_socket_ret ie < 0 \<longrightarrow> i_socket_errno ie \<noteq> 0) \<and>
      (node_init_ret ie \<noteq> 0 \<longrightarrow> node_init_errno ie \<noteq> 0))"

text \<open>The answers that make \<open>init_client\<close> fail, and the two the spec calls fatal.\<close>

definition ram_missing :: "init_env \<Rightarrow> bool" where
  "ram_missing ie = (fst (find_ram (linux_target ie) (ram_blocks ie)) = - 1)"

definition alloc_failed :: "init_env \<Rightarrow> bool" where
  "alloc_failed ie = (\<not> ram_missing ie \<and> 0 \<le> i_socket_ret ie \<and> \<not> malloc_ok ie)"

definition init_failed :: "init_env \<Rightarrow> bool" where
  "init_failed ie =
     (ram_missing ie \<or> i_socket_ret ie < 0 \<or> \<not> malloc_ok ie \<or> node_init_ret ie \<noteq> 0)"

text \<open>
  The invariant of a session: \<open>ipc_reader\<close> is registered on the stable descriptor of an
  existing Session only; a pending retry timer belongs to an existing, disconnected
  Session; the timer of an existing Session is live.
\<close>

definition sane :: "world \<Rightarrow> bool" where
  "sane s =
     ((\<forall>fd. fd_handler s fd = Some Ipc_reader \<longrightarrow> (\<exists>c. ipc s = Some c \<and> ipc_get_fd c = fd)) \<and>
      (armed s (ts s) \<noteq> None \<longrightarrow> ipc s \<noteq> None \<and> \<not> connected s) \<and>
      (ipc s \<noteq> None \<longrightarrow> ts s \<in> live_timers s))"

section \<open>Sample inputs\<close>

definition ie_ok :: init_env where
  "ie_ok = \<lparr>linux_target = True,
            ram_blocks = [\<lparr>blk_offset = 0, blk_fd = 3, blk_length = 4096\<rparr>],
            i_socket_ret = 4, i_socket_errno = 0, malloc_ok = True, node_init_ret = 0,
            node_init_errno = 0, new_timer = 1\<rparr>"

definition ie_noram :: init_env where
  "ie_noram = ie_ok\<lparr>ram_blocks := []\<rparr>"

definition ie_nomem :: init_env where
  "ie_nomem = ie_ok\<lparr>malloc_ok := False\<rparr>"

definition ie_sockfail :: init_env where
  "ie_sockfail = ie_ok\<lparr>i_socket_ret := - 1, i_socket_errno := 24\<rparr>"

definition ce_ok :: conn_env where
  "ce_ok = \<lparr>socket_ret = 5, socket_errno = 0, connect_ret = 0, QEMU_BELOW_4G_RAM_END = None,
            init_sequence_ret = 0, dup2_ret = 4, reconfigure_ret = 0\<rparr>"

definition ce_refused :: conn_env where
  "ce_refused = ce_ok\<lparr>connect_ret := - 1, socket_errno := 111\<rparr>"

definition ce_nosock :: conn_env where
  "ce_nosock = ce_ok\<lparr>socket_ret := - 1, socket_errno := 24\<rparr>"

definition ce_noack :: conn_env where
  "ce_noack = ce_ok\<lparr>init_sequence_ret := - 1\<rparr>"

definition ce_nodup :: conn_env where
  "ce_nodup = ce_ok\<lparr>dup2_ret := - 1\<rparr>"

definition ce_noreconf :: conn_env where
  "ce_noreconf = ce_ok\<lparr>reconfigure_ret := - 1\<rparr>"

definition ce_nosock0 :: conn_env where
  "ce_nosock0 = ce_ok\<lparr>socket_ret := - 1\<rparr>"

definition ce_lowmem :: conn_env where
  "ce_lowmem = ce_ok\<lparr>QEMU_BELOW_4G_RAM_END := Some 0xc0000000\<rparr>"

definition ie_nodefail :: init_env where
  "ie_nodefail = ie_ok\<lparr>node_init_ret := - 1, node_init_errno := 12\<rparr>"

definition ie_nodefail0 :: init_env where
  "ie_nodefail0 = ie_ok\<lparr>node_init_ret := - 1\<rparr>"

definition re_kick :: "uint16_t \<Rightarrow> recv_env" where
  "re_kick q = \<lparr>recv_ret = 0, recv_mtype = IPC_MESSAGE_TYPE_KICK, recv_curq = q\<rparr>"

definition re_closed :: recv_env where
  "re_closed = \<lparr>recv_ret = - 1, recv_mtype = IPC_MESSAGE_TYPE_KICK, recv_curq = 0\<rparr>"

definition dev0 :: world where
  "dev0 = zeroed_device True {0, 1, 2, 3} 0"

definition dev_up :: world where
  "dev_up = zeroed_device False {0, 1, 2, 3} 0"

text \<open>
  The session of the samples after \<open>ipc_init\<close>, and after the first timer fire with a
  peer that completes the handshake.
\<close>

definition node0 :: ipc_node where
  "node0 = \<lparr>node_nid = 7, node_fd = 4, node_ram_fd = 3, node_ram_size = 4096\<rparr>"

definition st_disconnected :: world where
  "st_disconnected =
     \<lparr>ipc = Some node0, socketpath = ''/tmp/ipc.sock'', nid = 7, cinterval = 1, ts = 1,
      link_down = True, open_fds = {0, 1, 2, 3, 4}, fd_handler = Map.empty,
      live_timers = {1}, armed = [1 \<mapsto> 1000], clock = 0,
      calls = [Ipc_socket 4, Malloc True, Ipc_node_init 7 4 3 4096 0, Qemu_new_timer_ms 1,
               Qemu_mod_timer 1 1000]\<rparr>"

definition st_connected :: world where
  "st_connected =
     \<lparr>ipc = Some node0, socketpath = ''/tmp/ipc.sock'', nid = 7, cinterval = 1, ts = 1,
      link_down = False, open_fds = {0, 1, 2, 3, 4}, fd_handler = [4 \<mapsto> Ipc_reader],
      live_timers = {1}, armed = Map.empty, clock = 1000,
      calls = [Ipc_socket 4, Malloc True, Ipc_node_init 7 4 3 4096 0, Qemu_new_timer_ms 1,
               Qemu_mod_timer 1 1000, Ipc_socket 5, Ipc_connect 5 ''/tmp/ipc.sock'' 13 0,
               Ipc_client_init_sequence node0 0xe0000000 5 0, Dup2 5 4 4, Close 5,
               Ipc_client_reconfigure node0 0, Virtio_net_set_link_down 0,
               Qemu_set_fd_handler 4 (Some Ipc_reader)]\<rparr>"


section \<open>What each function changes\<close>

lemmas ipc_defs = log_call_def perror_def fprintf_stderr_def ipc_socket_def dup2_def close_def
  shutdown_def ipc_get_fd_def virtio_net_set_link_down_def virtio_get_queue_def virtio_notify_def
  qemu_set_fd_handler_def qemu_new_timer_ms_def qemu_mod_timer_def qemu_del_timer_def
  qemu_free_timer_def set_link_status_def find_ram_def init_client_def ipc_set_connector_def
  ipc_reader_def lowmem_limit_def err1_def err2_def connect_to_server_def
  ipc_connect_to_server_def ipc_init_def ipc_exit_def EFAULT_def

lemmas sample_defs = ie_ok_def ie_noram_def ie_nomem_def ie_sockfail_def ce_ok_def ce_refused_def ce_nosock_def
  ce_noack_def ce_nodup_def ce_noreconf_def ce_nosock0_def ce_lowmem_def ie_nodefail_def
  ie_nodefail0_def re_kick_def
  re_closed_def dev0_def dev_up_def zeroed_device_def node0_def st_disconnected_def st_connected_def

lemma reach_disconnected:
  "session_run ''/tmp/ipc.sock'' 7 1 ie_ok [] dev0 = Some st_disconnected"
  by (simp add: session_run_def ipc_defs sample_defs Let_def) auto

lemma reach_connected:
  "session_run ''/tmp/ipc.sock'' 7 1 ie_ok [Timer_fire ce_ok] dev0 = Some st_connected"
  by (simp add: session_run_def host_step_def ipc_defs sample_defs Let_def) auto

lemma connect_frame:
  assumes "ipc s = Some c"
  shows "\<exists>r s'. connect_to_server e s = Some (r, s') \<and> ipc s' = ipc s \<and> ts s' = ts s \<and>
           live_timers s' = live_timers s \<and> armed s' = armed s \<and> clock s' = clock s \<and>
           cinterval s' = cinterval s \<and>
           (conn_failed e \<longrightarrow> fd_handler s' = fd_handler s \<and> link_down s' = link_down s) \<and>
           (conn_failed e \<and> conn_errno_set e \<longrightarrow> r \<noteq> 0) \<and>
           (\<not> conn_failed e \<longrightarrow>
              r = 0 \<and> fd_handler s' = (fd_handler s)(ipc_get_fd c \<mapsto> Ipc_reader) \<and>
              \<not> link_down s')"
  using assms
  by (simp add: ipc_defs Let_def conn_failed_def conn_errno_set_def)

lemma set_connector_frame:
  assumes "ts s \<in> live_timers s"
  shows "\<exists>s'. ipc_set_connector s = Some s' \<and> ipc s' = ipc s \<and> ts s' = ts s \<and>
           live_timers s' = live_timers s \<and> fd_handler s' = fd_handler s \<and>
           link_down s' = link_down s \<and> clock s' = clock s \<and> cinterval s' = cinterval s \<and>
           armed s' = (armed s)(ts s \<mapsto> clock s + uint (cinterval s * 1000))"
  using assms
  by (simp add: ipc_defs)

lemma timer_cb_frame:
  assumes "ipc s = Some c" "ts s \<in> live_timers s"
  shows "\<exists>s'. ipc_connect_to_server e s = Some s' \<and> ipc s' = ipc s \<and> ts s' = ts s \<and>
           live_timers s' = live_timers s \<and> clock s' = clock s \<and> cinterval s' = cinterval s \<and>
           (conn_failed e \<longrightarrow>
              fd_handler s' = fd_handler s \<and> link_down s' = link_down s \<and>
              (armed s' = armed s \<or>
               armed s' = (armed s)(ts s \<mapsto> clock s + uint (cinterval s * 1000)))) \<and>
           (conn_failed e \<and> conn_errno_set e \<longrightarrow>
              armed s' = (armed s)(ts s \<mapsto> clock s + uint (cinterval s * 1000))) \<and>
           (\<not> conn_failed e \<longrightarrow>
              fd_handler s' = (fd_handler s)(ipc_get_fd c \<mapsto> Ipc_reader) \<and>
              \<not> link_down s' \<and> armed s' = armed s)"
proof -
  obtain r s1 where c: "connect_to_server e s = Some (r, s1)" "ipc s1 = ipc s" "ts s1 = ts s"
      "live_timers s1 = live_timers s" "armed s1 = armed s" "clock s1 = clock s"
      "cinterval s1 = cinterval s"
      "conn_failed e \<longrightarrow> fd_handler s1 = fd_handler s \<and> link_down s1 = link_down s"
      "conn_failed e \<and> conn_errno_set e \<longrightarrow> r \<noteq> 0"
      "\<not> conn_failed e \<longrightarrow>
         r = 0 \<and> fd_handler s1 = (fd_handler s)(ipc_get_fd c \<mapsto> Ipc_reader) \<and>
         \<not> link_down s1"
    using connect_frame [OF assms(1), of e] by blast
  show ?thesis
  proof (cases "r = 0")
    case True
    with c show ?thesis by (auto simp: ipc_connect_to_server_def)
  next
    case False
    have live: "ts s1 \<in> live_timers s1" using c assms(2) by simp
    from False c have f: "conn_failed e" by auto
    from set_connector_frame [OF live] c False f show ?thesis
      by (auto simp: ipc_connect_to_server_def)
  qed
qed

lemma reader_frame:
  assumes "ipc s = Some c" "ts s \<in> live_timers s"
  shows "\<exists>s'. ipc_reader e s = Some s' \<and> ipc s' = ipc s \<and> ts s' = ts s \<and>
           live_timers s' = live_timers s \<and> clock s' = clock s \<and> cinterval s' = cinterval s \<and>
           (recv_ret e < 0 \<longrightarrow>
              fd_handler s' = (fd_handler s)(ipc_get_fd c := None) \<and> link_down s' \<and>
              armed s' = (armed s)(ts s \<mapsto> clock s + uint (cinterval s * 1000))) \<and>
           (\<not> recv_ret e < 0 \<longrightarrow>
              fd_handler s' = fd_handler s \<and> link_down s' = link_down s \<and>
              armed s' = armed s)"
  using assms
  by (simp add: ipc_defs Let_def split: ipc_msg_type.split)

lemma exit_frame:
  assumes "ipc s = Some c" "ts s \<in> live_timers s"
  shows "\<exists>s'. ipc_exit s = Some s' \<and> ipc s' = None \<and> ts s' = ts s \<and>
           live_timers s' = live_timers s - {ts s} \<and> clock s' = clock s \<and>
           cinterval s' = cinterval s \<and>
           fd_handler s' = (fd_handler s)(ipc_get_fd c := None) \<and> link_down s' \<and>
           armed s' = (armed s)(ts s := None) \<and>
           calls s' = calls s @
             [Qemu_del_timer (ts s), Qemu_free_timer (ts s),
              Qemu_set_fd_handler (ipc_get_fd c) None, Close (ipc_get_fd c),
              Virtio_net_set_link_down 1, Free c]"
  using assms
  by (simp add: ipc_defs Let_def)

lemma exit_none: "ipc s = None \<Longrightarrow> ipc_exit s = Some s"
  by (simp add: ipc_exit_def)

section \<open>The invariant of a session\<close>

lemma sane_zeroed: "sane (zeroed_device ld fds now)"
  by (simp add: sane_def zeroed_device_def connected_def)

lemma init_failed_frame:
  assumes "init_failed ie" "init_errno_set ie"
  shows "\<exists>r s1 new. init_client ie s = (r, s1) \<and> r \<noteq> 0 \<and> ipc s1 = ipc s \<and> ts s1 = ts s \<and>
           live_timers s1 = live_timers s \<and> armed s1 = armed s \<and>
           fd_handler s1 = fd_handler s \<and> link_down s1 = link_down s \<and>
           clock s1 = clock s \<and> socketpath s1 = socketpath s \<and> nid s1 = nid s \<and>
           cinterval s1 = cinterval s \<and> calls s1 = calls s @ new \<and>
           (\<forall>t. Qemu_new_timer_ms t \<notin> set new) \<and> (\<forall>t d. Qemu_mod_timer t d \<notin> set new)"
  using assms
  by (auto simp: init_failed_def init_errno_set_def ram_missing_def init_client_def Let_def
        log_call_def perror_def ipc_socket_def EFAULT_def split: prod.splits)

lemma init_ok_frame:
  assumes "\<not> init_failed ie"
  shows "\<exists>c s1. init_client ie s = (0, s1) \<and> ipc s1 = Some c \<and> ipc_get_fd c = i_socket_ret ie \<and>
           ts s1 = ts s \<and> live_timers s1 = live_timers s \<and> armed s1 = armed s \<and>
           fd_handler s1 = fd_handler s \<and> link_down s1 = link_down s \<and> clock s1 = clock s \<and>
           cinterval s1 = cinterval s"
  using assms
  by (auto simp: init_failed_def ram_missing_def init_client_def Let_def ipc_get_fd_def
        log_call_def perror_def ipc_socket_def EFAULT_def split: prod.splits)

lemma init_sane:
  assumes "init_errno_set ie"
  shows "\<exists>s0. ipc_init path n ci ie (zeroed_device ld fds now) = Some s0 \<and> sane s0 \<and>
           link_down s0 = ld \<and> \<not> connected s0"
proof (cases "init_failed ie")
  case True
  let ?z = "(zeroed_device ld fds now)\<lparr>socketpath := path, nid := n, cinterval := ci\<rparr>"
  from init_failed_frame [OF True assms, of ?z] obtain r s1 where
    "init_client ie ?z = (r, s1)" "r \<noteq> 0" "ipc s1 = ipc ?z" "ts s1 = ts ?z"
    "armed s1 = armed ?z" "fd_handler s1 = fd_handler ?z" "link_down s1 = link_down ?z"
    by blast
  then show ?thesis
    by (simp add: ipc_init_def fprintf_stderr_def log_call_def sane_def connected_def
          zeroed_device_def)
next
  case False
  let ?z = "(zeroed_device ld fds now)\<lparr>socketpath := path, nid := n, cinterval := ci\<rparr>"
  from init_ok_frame [OF False, of ?z] obtain c s1 where
    "init_client ie ?z = (0, s1)" "ipc s1 = Some c" "fd_handler s1 = fd_handler ?z"
    "link_down s1 = link_down ?z"
    by blast
  then show ?thesis
    by (simp add: ipc_init_def ipc_set_connector_def qemu_new_timer_ms_def qemu_mod_timer_def
          log_call_def sane_def connected_def zeroed_device_def)
qed

lemma sane_timer_fire:
  assumes "sane s"
  shows "\<exists>s'. host_step (Timer_fire e) s = Some s' \<and> sane s' \<and> (linked s \<longrightarrow> linked s')"
proof (cases "armed s (ts s)")
  case None
  with assms show ?thesis by (simp add: host_step_def)
next
  case (Some d)
  let ?s1 = "s\<lparr>armed := (armed s)(ts s := None), clock := max (clock s) d\<rparr>"
  from Some assms obtain c where c: "ipc s = Some c" and nc: "\<not> connected s"
    and live: "ts s \<in> live_timers s"
    by (auto simp: sane_def)
  have "ipc ?s1 = Some c" "ts ?s1 \<in> live_timers ?s1" using c live by simp_all
  note f = timer_cb_frame [OF this, of e, simplified]
  from f obtain s' where
    r: "ipc_connect_to_server e ?s1 = Some s'" "ipc s' = ipc s" "ts s' = ts s"
       "live_timers s' = live_timers s"
    and k1: "conn_failed e \<longrightarrow>
              fd_handler s' = fd_handler s \<and> link_down s' = link_down s \<and>
              (armed s' = (armed s)(ts s := None) \<or>
               armed s' = (armed s)(ts s \<mapsto> max (clock s) d + uint (cinterval s * 1000)))"
    and k2: "\<not> conn_failed e \<longrightarrow>
              fd_handler s' = (fd_handler s)(ipc_get_fd c \<mapsto> Ipc_reader) \<and>
              \<not> link_down s' \<and> armed s' = (armed s)(ts s := None)"
    by blast
  have "sane s' \<and> (linked s \<longrightarrow> linked s')"
  proof (cases "conn_failed e")
    case True
    with k1 r c nc live assms show ?thesis
      by (auto simp: sane_def connected_def linked_def)
  next
    case False
    with k2 r c nc live assms show ?thesis
      by (auto simp: sane_def connected_def linked_def)
  qed
  with r Some show ?thesis by (simp add: host_step_def)
qed

lemma sane_fd_readable:
  assumes "sane s"
  shows "\<exists>s'. host_step (Fd_readable fd e) s = Some s' \<and> sane s' \<and> (linked s \<longrightarrow> linked s')"
proof (cases "fd_handler s fd")
  case None
  with assms show ?thesis by (simp add: host_step_def)
next
  case (Some h)
  then have h: "fd_handler s fd = Some Ipc_reader" by (cases h) simp
  from h assms obtain c where c: "ipc s = Some c" "ipc_get_fd c = fd"
    and live: "ts s \<in> live_timers s"
    by (auto simp: sane_def)
  from reader_frame [OF c(1) live, of e] obtain s' where
    r: "ipc_reader e s = Some s'" "ipc s' = ipc s" "ts s' = ts s"
       "live_timers s' = live_timers s"
    and k1: "recv_ret e < 0 \<longrightarrow>
              fd_handler s' = (fd_handler s)(ipc_get_fd c := None) \<and> link_down s' \<and>
              armed s' = (armed s)(ts s \<mapsto> clock s + uint (cinterval s * 1000))"
    and k2: "\<not> recv_ret e < 0 \<longrightarrow>
              fd_handler s' = fd_handler s \<and> link_down s' = link_down s \<and>
              armed s' = armed s"
    by blast
  have "sane s' \<and> (linked s \<longrightarrow> linked s')"
  proof (cases "recv_ret e < 0")
    case True
    with k1 r c live assms show ?thesis
      by (auto simp: sane_def connected_def linked_def)
  next
    case False
    with k2 r c live assms show ?thesis
      by (auto simp: sane_def connected_def linked_def)
  qed
  with r h show ?thesis by (simp add: host_step_def)
qed

lemma sane_teardown:
  assumes "sane s"
  shows "\<exists>s'. host_step Teardown s = Some s' \<and> sane s' \<and> (linked s \<longrightarrow> linked s')"
proof (cases "ipc s")
  case None
  with assms show ?thesis by (simp add: host_step_def exit_none)
next
  case (Some c)
  with assms have live: "ts s \<in> live_timers s" by (simp add: sane_def)
  from exit_frame [OF Some live] obtain s' where
    r: "ipc_exit s = Some s'" "ipc s' = None" "ts s' = ts s"
       "fd_handler s' = (fd_handler s)(ipc_get_fd c := None)" "link_down s'"
       "armed s' = (armed s)(ts s := None)"
    by blast
  with Some assms have "sane s' \<and> linked s'"
    by (auto simp: sane_def connected_def linked_def)
  with r show ?thesis by (simp add: host_step_def)
qed

lemma sane_advance:
  assumes "sane s"
  shows "\<exists>s'. host_step (Advance k) s = Some s' \<and> sane s' \<and> (linked s \<longrightarrow> linked s')"
  using assms
  by (simp add: host_step_def sane_def connected_def linked_def split: option.splits)

lemma sane_host_step:
  assumes "sane s"
  shows "\<exists>s'. host_step ev s = Some s' \<and> sane s' \<and> (linked s \<longrightarrow> linked s')"
  using assms
  by (cases ev) (simp_all only: sane_timer_fire sane_fd_readable sane_teardown sane_advance)

lemma sane_run:
  assumes "sane s"
  shows "\<exists>s'. run evs s = Some s' \<and> sane s' \<and> (linked s \<longrightarrow> linked s')"
  using assms
proof (induction evs arbitrary: s)
  case Nil
  then show ?case by simp
next
  case (Cons ev evs)
  from sane_host_step [OF Cons.prems, of ev] obtain s1 where
    s1: "host_step ev s = Some s1" "sane s1" "linked s \<longrightarrow> linked s1" by blast
  from Cons.IH [OF s1(2)] obtain s' where
    "run evs s1 = Some s'" "sane s'" "linked s1 \<longrightarrow> linked s'" by blast
  with s1 show ?case by simp
qed

lemma session_sane:
  assumes "init_errno_set ie"
  shows "\<exists>s. session_run path n ci ie evs (zeroed_device ld fds now) = Some s \<and> sane s \<and>
           (ld \<longrightarrow> linked s)"
proof -
  from init_sane [OF assms, of path n ci ld fds now] obtain s0 where
    s0: "ipc_init path n ci ie (zeroed_device ld fds now) = Some s0" "sane s0"
        "link_down s0 = ld" "\<not> connected s0"
    by blast
  from sane_run [OF s0(2), of evs] obtain s where
    "run evs s0 = Some s" "sane s" "linked s0 \<longrightarrow> linked s" by blast
  with s0 show ?thesis by (auto simp: session_run_def linked_def)
qed

lemma exit_connected_sample:
  "ipc_exit st_connected =
     Some (st_connected\<lparr>ipc := None, link_down := True, open_fds := {0, 1, 2, 3},
             fd_handler := Map.empty, live_timers := {},
             calls := calls st_connected @
               [Qemu_del_timer 1, Qemu_free_timer 1, Qemu_set_fd_handler 4 None, Close 4,
                Virtio_net_set_link_down 1, Free node0]\<rparr>)"
  by (simp add: sample_defs ipc_defs Let_def) auto

lemma noram_teardown_sample:
  "session_run ''/tmp/ipc.sock'' 7 1 ie_noram [Teardown, Teardown] dev0 =
     session_run ''/tmp/ipc.sock'' 7 1 ie_noram [] dev0"
  by (simp add: sample_defs session_run_def ipc_defs host_step_def Let_def)

lemma nomem_init_sample:
  "ipc_init ''/tmp/ipc.sock'' 7 1 ie_nomem dev0 =
     Some (dev0\<lparr>socketpath := ''/tmp/ipc.sock'', nid := 7, cinterval := 1,
                open_fds := {0, 1, 2, 3, 4},
                calls := [Ipc_socket 4, Malloc False, Perror ''failed to malloc'',
                          Fprintf_stderr (''Fatal error: can'' @ [CHR 0x27] @
                            ''t init ipc node structure'' @ [CHR 0x0A])]\<rparr>)"
  by (simp add: sample_defs ipc_defs Let_def) auto

lemma reader_fail_calls:
  assumes "ipc s = Some c" "ts s \<in> live_timers s" "recv_ret e < 0"
  shows "\<exists>s'. ipc_reader e s = Some s' \<and>
           calls s' = calls s @
             [Ipc_client_recv c (recv_ret e),
              Perror (''can'' @ [CHR 0x27] @ ''t receive data from a server''),
              Qemu_set_fd_handler (ipc_get_fd c) None, Shutdown_rdwr (ipc_get_fd c),
              Virtio_net_set_link_down 1,
              Qemu_mod_timer (ts s) (clock s + uint (cinterval s * 1000))] \<and>
           ipc s' = ipc s \<and> fd_handler s' = (fd_handler s)(ipc_get_fd c := None) \<and>
           link_down s' \<and> ts s' = ts s \<and>
           armed s' = (armed s)(ts s \<mapsto> clock s + uint (cinterval s * 1000))"
  using assms by (simp add: ipc_defs Let_def)

lemma uint_interval_ms:
  fixes ci :: uint32_t
  assumes "uint ci \<le> 4294967"
  shows "uint (ci * 1000) = uint ci * 1000"
proof -
  have "uint (ci * 1000) = uint ci * uint (1000 :: uint32_t) mod 2 ^ 32"
    by (simp add: uint_word_ariths)
  also have "\<dots> = uint ci * 1000 mod 4294967296" by simp
  also have "\<dots> = uint ci * 1000"
    using assms by (intro mod_pos_pos_trivial) simp_all
  finally show ?thesis .
qed

lemma retry_run_failures:
  assumes "ipc s = Some c" and "ts s \<in> live_timers s" and "armed s (ts s) = Some d"
    and "clock s \<le> d" and "\<forall>e\<in>set es. conn_failed e \<and> conn_errno_set e"
  shows "\<exists>s'. retry_run es s =
             Some (map (\<lambda>k. d + int k * uint (cinterval s * 1000)) [0..<length es], s') \<and>
           link_down s' = link_down s \<and> fd_handler s' = fd_handler s \<and> ipc s' = ipc s \<and>
           armed s' (ts s') = Some (d + int (length es) * uint (cinterval s * 1000))"
  using assms
proof (induction es arbitrary: s d)
  case Nil
  then show ?case by simp
next
  case (Cons e es)
  let ?D = "uint (cinterval s * 1000)"
  let ?s1 = "s\<lparr>armed := (armed s)(ts s := None), clock := max (clock s) d\<rparr>"
  have f: "conn_failed e \<and> conn_errno_set e" using Cons.prems(5) by simp
  have "ipc ?s1 = Some c" "ts ?s1 \<in> live_timers ?s1" using Cons.prems by simp_all
  note fr = timer_cb_frame [OF this, of e, simplified]
  from fr f Cons.prems(4) obtain s2 where
    s2: "ipc_connect_to_server e ?s1 = Some s2" "ipc s2 = ipc s" "ts s2 = ts s"
        "live_timers s2 = live_timers s" "clock s2 = d" "cinterval s2 = cinterval s"
        "fd_handler s2 = fd_handler s" "link_down s2 = link_down s"
        "armed s2 = (armed s)(ts s \<mapsto> d + ?D)"
    by (auto simp: max_def)
  have hs: "host_step (Timer_fire e) s = Some s2"
    using s2(1) Cons.prems(3) by (simp add: host_step_def)
  have p: "ipc s2 = Some c" "ts s2 \<in> live_timers s2" "armed s2 (ts s2) = Some (d + ?D)"
    "clock s2 \<le> d + ?D" "\<forall>e\<in>set es. conn_failed e \<and> conn_errno_set e"
    using s2 Cons.prems by simp_all
  from Cons.IH [OF p] s2 obtain s' where
    r: "retry_run es s2 =
          Some (map (\<lambda>k. d + ?D + int k * ?D) [0..<length es], s')"
       "link_down s' = link_down s" "fd_handler s' = fd_handler s" "ipc s' = ipc s"
       "armed s' (ts s') = Some (d + ?D + int (length es) * ?D)"
    by auto
  have m: "map (\<lambda>k. d + int k * ?D) [0..<length (e # es)] =
           d # map (\<lambda>k. d + ?D + int k * ?D) [0..<length es]"
    by (simp add: map_upt_Suc algebra_simps del: upt_Suc)
  have l: "d + ?D + int (length es) * ?D = d + int (length (e # es)) * ?D"
    by (simp add: algebra_simps)
  from hs r s2(5) Cons.prems(3) show ?case
    unfolding m l [symmetric] by simp
qed

section \<open>The claims\<close>

text \<open>
  C1 (as amended). Provided the link is down when \<open>ipc_init\<close> is called on the
  zero-filled device (and a failed call of \<open>init_client\<close> leaves \<open>errno\<close> non-zero),
  every state that the session reaches has LinkStatus UP if and only if the Session is
  CONNECTED. Both operations that leave CONNECTED set the link down within the same
  call: \<open>ipc_reader\<close> on a failed receive calls \<open>virtio_net_set_link_down(1)\<close> and
  only then re-arms the retry timer with \<open>qemu_mod_timer\<close>; \<open>ipc_exit\<close> sets the link
  down and never re-arms the timer, which it has deleted and freed.
\<close>

theorem C1_link_up_iff_connected:
  "init_errno_set ie \<longrightarrow>
     (\<exists>s. session_run path n ci ie evs (zeroed_device True fds now) = Some s \<and>
        ((\<not> link_down s) = connected s) \<and>
        (connected s \<longrightarrow>
           (\<exists>c. ipc s = Some c \<and>
              (\<forall>e. recv_ret e < 0 \<longrightarrow>
                 (\<exists>s'. ipc_reader e s = Some s' \<and> link_down s' \<and> \<not> connected s' \<and>
                    calls s' = calls s @
                      [Ipc_client_recv c (recv_ret e),
                       Perror (''can'' @ [CHR 0x27] @ ''t receive data from a server''),
                       Qemu_set_fd_handler (ipc_get_fd c) None, Shutdown_rdwr (ipc_get_fd c),
                       Virtio_net_set_link_down 1,
                       Qemu_mod_timer (ts s) (clock s + uint (cinterval s * 1000))])) \<and>
              (\<exists>s'. ipc_exit s = Some s' \<and> link_down s' \<and> \<not> connected s' \<and>
                 armed s' (ts s') = None \<and>
                 calls s' = calls s @
                   [Qemu_del_timer (ts s), Qemu_free_timer (ts s),
                    Qemu_set_fd_handler (ipc_get_fd c) None, Close (ipc_get_fd c),
                    Virtio_net_set_link_down 1, Free c]))))"
proof
  assume "init_errno_set ie"
  from session_sane [OF this, of path n ci evs True fds now] obtain s where
    s: "session_run path n ci ie evs (zeroed_device True fds now) = Some s" "sane s" "linked s"
    by blast
  have "\<exists>c. ipc s = Some c \<and>
              (\<forall>e. recv_ret e < 0 \<longrightarrow>
                 (\<exists>s'. ipc_reader e s = Some s' \<and> link_down s' \<and> \<not> connected s' \<and>
                    calls s' = calls s @
                      [Ipc_client_recv c (recv_ret e),
                       Perror (''can'' @ [CHR 0x27] @ ''t receive data from a server''),
                       Qemu_set_fd_handler (ipc_get_fd c) None, Shutdown_rdwr (ipc_get_fd c),
                       Virtio_net_set_link_down 1,
                       Qemu_mod_timer (ts s) (clock s + uint (cinterval s * 1000))])) \<and>
              (\<exists>s'. ipc_exit s = Some s' \<and> link_down s' \<and> \<not> connected s' \<and>
                 armed s' (ts s') = None \<and>
                 calls s' = calls s @
                   [Qemu_del_timer (ts s), Qemu_free_timer (ts s),
                    Qemu_set_fd_handler (ipc_get_fd c) None, Close (ipc_get_fd c),
                    Virtio_net_set_link_down 1, Free c])"
    if con: "connected s"
  proof -
    from con obtain c where c: "ipc s = Some c"
      by (auto simp: connected_def split: option.splits)
    with s have live: "ts s \<in> live_timers s" by (simp add: sane_def)
    have rd: "\<exists>s'. ipc_reader e s = Some s' \<and> link_down s' \<and> \<not> connected s' \<and>
                    calls s' = calls s @
                      [Ipc_client_recv c (recv_ret e),
                       Perror (''can'' @ [CHR 0x27] @ ''t receive data from a server''),
                       Qemu_set_fd_handler (ipc_get_fd c) None, Shutdown_rdwr (ipc_get_fd c),
                       Virtio_net_set_link_down 1,
                       Qemu_mod_timer (ts s) (clock s + uint (cinterval s * 1000))]"
      if "recv_ret e < 0" for e
      using reader_fail_calls [OF c live that] c by (auto simp: connected_def)
    have ex: "\<exists>s'. ipc_exit s = Some s' \<and> link_down s' \<and> \<not> connected s' \<and>
                 armed s' (ts s') = None \<and>
                 calls s' = calls s @
                   [Qemu_del_timer (ts s), Qemu_free_timer (ts s),
                    Qemu_set_fd_handler (ipc_get_fd c) None, Close (ipc_get_fd c),
                    Virtio_net_set_link_down 1, Free c]"
      using exit_frame [OF c live] by (auto simp: connected_def)
    from c rd ex show ?thesis by blast
  qed
  with s show "\<exists>s. session_run path n ci ie evs (zeroed_device True fds now) = Some s \<and>
        ((\<not> link_down s) = connected s) \<and>
        (connected s \<longrightarrow>
           (\<exists>c. ipc s = Some c \<and>
              (\<forall>e. recv_ret e < 0 \<longrightarrow>
                 (\<exists>s'. ipc_reader e s = Some s' \<and> link_down s' \<and> \<not> connected s' \<and>
                    calls s' = calls s @
                      [Ipc_client_recv c (recv_ret e),
                       Perror (''can'' @ [CHR 0x27] @ ''t receive data from a server''),
                       Qemu_set_fd_handler (ipc_get_fd c) None, Shutdown_rdwr (ipc_get_fd c),
                       Virtio_net_set_link_down 1,
                       Qemu_mod_timer (ts s) (clock s + uint (cinterval s * 1000))])) \<and>
              (\<exists>s'. ipc_exit s = Some s' \<and> link_down s' \<and> \<not> connected s' \<and>
                 armed s' (ts s') = None \<and>
                 calls s' = calls s @
                   [Qemu_del_timer (ts s), Qemu_free_timer (ts s),
                    Qemu_set_fd_handler (ipc_get_fd c) None, Close (ipc_get_fd c),
                    Virtio_net_set_link_down 1, Free c])))"
    unfolding linked_def by blast
qed

text \<open>
  C1 as stated fails in the first state of a Session. No function of the file sets the
  link flag before the first successful handshake: \<open>ipc_init\<close> on a device whose link
  is up leaves it up, while the Session is disconnected and waits for its first timer
  fire.
\<close>

theorem C1_link_up_disconnected_counterexample:
  "session_run ''/tmp/ipc.sock'' 7 1 ie_ok [] dev_up =
     Some (st_disconnected\<lparr>link_down := False\<rparr>) \<and>
   \<not> link_down (st_disconnected\<lparr>link_down := False\<rparr>) \<and>
   \<not> connected (st_disconnected\<lparr>link_down := False\<rparr>)"
  by (simp add: session_run_def ipc_defs sample_defs Let_def connected_def) auto

theorem C1_link_up_witness:
  "init_errno_set ie_ok \<and>
   session_run ''/tmp/ipc.sock'' 7 1 ie_ok [Timer_fire ce_ok] dev0 = Some st_connected \<and>
   \<not> link_down st_connected \<and> connected st_connected \<and> recv_ret re_closed < 0 \<and>
   (\<exists>s'. ipc_reader re_closed st_connected = Some s' \<and> link_down s' \<and> \<not> connected s' \<and>
      calls s' = calls st_connected @
        [Ipc_client_recv node0 (- 1),
         Perror (''can'' @ [CHR 0x27] @ ''t receive data from a server''),
         Qemu_set_fd_handler 4 None, Shutdown_rdwr 4, Virtio_net_set_link_down 1,
         Qemu_mod_timer 1 2000]) \<and>
   (\<exists>s'. ipc_exit st_connected = Some s' \<and> link_down s' \<and> \<not> connected s' \<and>
      armed s' (ts s') = None \<and>
      calls s' = calls st_connected @
        [Qemu_del_timer 1, Qemu_free_timer 1, Qemu_set_fd_handler 4 None, Close 4,
         Virtio_net_set_link_down 1, Free node0]) \<and>
   session_run ''/tmp/ipc.sock'' 7 1 ie_ok [] dev0 = Some st_disconnected \<and>
   link_down st_disconnected \<and> \<not> connected st_disconnected"
proof -
  have a: "init_errno_set ie_ok" by (simp add: init_errno_set_def ie_ok_def)
  have b: "connected st_connected" "ipc st_connected = Some node0" "ts st_connected = 1"
    "ipc_get_fd node0 = 4" "clock st_connected = 1000" "cinterval st_connected = 1"
    "recv_ret re_closed = - 1" "link_down st_disconnected" "\<not> connected st_disconnected"
    by (simp_all add: connected_def sample_defs ipc_get_fd_def)
  note t = C1_link_up_iff_connected [of ie_ok "''/tmp/ipc.sock''" 7 1 "[Timer_fire ce_ok]"
      "{0, 1, 2, 3}" 0, folded dev0_def]
  from t a reach_connected b(1) have
    k: "\<not> link_down st_connected"
       "\<exists>c. ipc st_connected = Some c \<and>
              (\<forall>e. recv_ret e < 0 \<longrightarrow>
                 (\<exists>s'. ipc_reader e st_connected = Some s' \<and> link_down s' \<and> \<not> connected s' \<and>
                    calls s' = calls st_connected @
                      [Ipc_client_recv c (recv_ret e),
                       Perror (''can'' @ [CHR 0x27] @ ''t receive data from a server''),
                       Qemu_set_fd_handler (ipc_get_fd c) None, Shutdown_rdwr (ipc_get_fd c),
                       Virtio_net_set_link_down 1,
                       Qemu_mod_timer (ts st_connected)
                         (clock st_connected + uint (cinterval st_connected * 1000))])) \<and>
              (\<exists>s'. ipc_exit st_connected = Some s' \<and> link_down s' \<and> \<not> connected s' \<and>
                 armed s' (ts s') = None \<and>
                 calls s' = calls st_connected @
                   [Qemu_del_timer (ts st_connected), Qemu_free_timer (ts st_connected),
                    Qemu_set_fd_handler (ipc_get_fd c) None, Close (ipc_get_fd c),
                    Virtio_net_set_link_down 1, Free c])"
    by auto
  from k(2) b have
    r: "\<forall>e. recv_ret e < 0 \<longrightarrow>
                 (\<exists>s'. ipc_reader e st_connected = Some s' \<and> link_down s' \<and> \<not> connected s' \<and>
                    calls s' = calls st_connected @
                      [Ipc_client_recv node0 (recv_ret e),
                       Perror (''can'' @ [CHR 0x27] @ ''t receive data from a server''),
                       Qemu_set_fd_handler 4 None, Shutdown_rdwr 4,
                       Virtio_net_set_link_down 1, Qemu_mod_timer 1 2000])"
    and x: "\<exists>s'. ipc_exit st_connected = Some s' \<and> link_down s' \<and> \<not> connected s' \<and>
      armed s' (ts s') = None \<and>
      calls s' = calls st_connected @
        [Qemu_del_timer 1, Qemu_free_timer 1, Qemu_set_fd_handler 4 None, Close 4,
         Virtio_net_set_link_down 1, Free node0]"
    by simp_all
  from r b(7) have
    "\<exists>s'. ipc_reader re_closed st_connected = Some s' \<and> link_down s' \<and> \<not> connected s' \<and>
      calls s' = calls st_connected @
        [Ipc_client_recv node0 (- 1),
         Perror (''can'' @ [CHR 0x27] @ ''t receive data from a server''),
         Qemu_set_fd_handler 4 None, Shutdown_rdwr 4, Virtio_net_set_link_down 1,
         Qemu_mod_timer 1 2000]"
    by (metis neg_less_0_iff_less zero_less_one)
  with a k(1) b x reach_connected reach_disconnected show ?thesis by simp
qed

text \<open>
  C2 (as amended). Every retryable error ends the attempt or the connection and re-arms
  the retry timer one fixed delay ahead of the current time, the same delay for every
  error: the configured interval, \<open>cinterval\<close> seconds in milliseconds, for
  \<open>cinterval \<le> 4294967\<close> (the delay is the 32-bit product \<open>cinterval * 1000\<close>). A
  connection attempt that fails at any step (socket, connect, init sequence, descriptor
  swap, reconfigure) closes the descriptor it opened, registers no read handler, leaves
  the link status as it is without reporting anything, and the timer callback re-arms
  the timer as its last call; for a failed \<open>ipc_socket\<close> this needs the failed call to
  have left \<open>errno\<close> non-zero, since the result of the attempt is \<open>-errno\<close> there. A
  failed receive in \<open>ipc_reader\<close> (read error or the peer closing the channel) removes
  the read handler, shuts the stable descriptor down, sets the link down and then
  re-arms the timer.
\<close>

theorem C2_retryable_errors:
  assumes "ipc s = Some c" and "ts s \<in> live_timers s"
  shows
   "(conn_failed e \<and> conn_errno_set e \<longrightarrow>
       (\<exists>s' new. ipc_connect_to_server e s = Some s' \<and> calls s' = calls s @ new \<and>
          last new = Qemu_mod_timer (ts s) (clock s + uint (cinterval s * 1000)) \<and>
          (\<forall>x. Virtio_net_set_link_down x \<notin> set new) \<and>
          (\<forall>fd h. Qemu_set_fd_handler fd h \<notin> set new) \<and>
          link_down s' = link_down s \<and> fd_handler s' = fd_handler s \<and> ipc s' = ipc s \<and>
          armed s' = (armed s)(ts s \<mapsto> clock s + uint (cinterval s * 1000)) \<and>
          (0 \<le> socket_ret e \<longrightarrow> Close (socket_ret e) \<in> set new) \<and>
          (socket_ret e \<noteq> ipc_get_fd c \<longrightarrow> socket_ret e \<notin> open_fds s' - open_fds s))) \<and>
    (recv_ret r < 0 \<longrightarrow>
       (\<exists>s'. ipc_reader r s = Some s' \<and>
          calls s' = calls s @
            [Ipc_client_recv c (recv_ret r),
             Perror (''can'' @ [CHR 0x27] @ ''t receive data from a server''),
             Qemu_set_fd_handler (ipc_get_fd c) None, Shutdown_rdwr (ipc_get_fd c),
             Virtio_net_set_link_down 1,
             Qemu_mod_timer (ts s) (clock s + uint (cinterval s * 1000))] \<and>
          link_down s' \<and> fd_handler s' = (fd_handler s)(ipc_get_fd c := None) \<and>
          ipc s' = ipc s \<and>
          armed s' = (armed s)(ts s \<mapsto> clock s + uint (cinterval s * 1000)))) \<and>
    (uint (cinterval s) \<le> 4294967 \<longrightarrow>
       uint (cinterval s * 1000) = uint (cinterval s) * 1000)"
proof (intro conjI impI)
  assume f: "conn_failed e \<and> conn_errno_set e"
  with assms show
    "\<exists>s' new. ipc_connect_to_server e s = Some s' \<and> calls s' = calls s @ new \<and>
          last new = Qemu_mod_timer (ts s) (clock s + uint (cinterval s * 1000)) \<and>
          (\<forall>x. Virtio_net_set_link_down x \<notin> set new) \<and>
          (\<forall>fd h. Qemu_set_fd_handler fd h \<notin> set new) \<and>
          link_down s' = link_down s \<and> fd_handler s' = fd_handler s \<and> ipc s' = ipc s \<and>
          armed s' = (armed s)(ts s \<mapsto> clock s + uint (cinterval s * 1000)) \<and>
          (0 \<le> socket_ret e \<longrightarrow> Close (socket_ret e) \<in> set new) \<and>
          (socket_ret e \<noteq> ipc_get_fd c \<longrightarrow> socket_ret e \<notin> open_fds s' - open_fds s)"
    by (auto simp: conn_failed_def conn_errno_set_def ipc_connect_to_server_def
          connect_to_server_def Let_def ipc_socket_def log_call_def perror_def err1_def err2_def
          close_def dup2_def shutdown_def ipc_set_connector_def qemu_mod_timer_def EFAULT_def
          ipc_get_fd_def)
next
  assume "recv_ret r < 0"
  from reader_fail_calls [OF assms this] show
    "\<exists>s'. ipc_reader r s = Some s' \<and>
          calls s' = calls s @
            [Ipc_client_recv c (recv_ret r),
             Perror (''can'' @ [CHR 0x27] @ ''t receive data from a server''),
             Qemu_set_fd_handler (ipc_get_fd c) None, Shutdown_rdwr (ipc_get_fd c),
             Virtio_net_set_link_down 1,
             Qemu_mod_timer (ts s) (clock s + uint (cinterval s * 1000))] \<and>
          link_down s' \<and> fd_handler s' = (fd_handler s)(ipc_get_fd c := None) \<and>
          ipc s' = ipc s \<and>
          armed s' = (armed s)(ts s \<mapsto> clock s + uint (cinterval s * 1000))"
    by blast
next
  assume "uint (cinterval s) \<le> 4294967"
  then show "uint (cinterval s * 1000) = uint (cinterval s) * 1000"
    by (rule uint_interval_ms)
qed

text \<open>
  C2 as stated has every retryable error report link down. The failure paths of
  \<open>connect_to_server\<close> never call \<open>set_link_status\<close>: a refused connection on a
  device whose link is up leaves the link up, and on any device the calls of the failed
  attempt hold no link report. Nor does every failed socket open re-arm the timer: when
  the failed \<open>ipc_socket\<close> left \<open>errno\<close> at 0 the attempt returns 0, the callback
  takes it for a success, and the Session is left disconnected with no timer pending.
\<close>

theorem C2_link_not_reported_counterexample:
  "conn_failed ce_refused \<and>
   session_run ''/tmp/ipc.sock'' 7 1 ie_ok [Timer_fire ce_refused] dev_up =
     Some (st_disconnected\<lparr>link_down := False, armed := [1 \<mapsto> 2000], clock := 1000,
             calls := calls st_disconnected @
               [Ipc_socket 5, Ipc_connect 5 ''/tmp/ipc.sock'' 13 (- 1),
                Perror ''failed to connect'', Close 5, Qemu_mod_timer 1 2000]\<rparr>) \<and>
   session_run ''/tmp/ipc.sock'' 7 1 ie_ok [Timer_fire ce_refused] dev0 =
     Some (st_disconnected\<lparr>armed := [1 \<mapsto> 2000], clock := 1000,
             calls := calls st_disconnected @
               [Ipc_socket 5, Ipc_connect 5 ''/tmp/ipc.sock'' 13 (- 1),
                Perror ''failed to connect'', Close 5, Qemu_mod_timer 1 2000]\<rparr>) \<and>
   \<not> link_down (st_disconnected\<lparr>link_down := False, armed := [1 \<mapsto> 2000], clock := 1000\<rparr>) \<and>
   Virtio_net_set_link_down 1 \<notin>
     set (calls st_disconnected @
            [Ipc_socket 5, Ipc_connect 5 ''/tmp/ipc.sock'' 13 (- 1),
             Perror ''failed to connect'', Close 5, Qemu_mod_timer 1 2000]) \<and>
   conn_failed ce_nosock0 \<and>
   session_run ''/tmp/ipc.sock'' 7 1 ie_ok [Timer_fire ce_nosock0] dev0 =
     Some (st_disconnected\<lparr>armed := Map.empty, clock := 1000,
             calls := calls st_disconnected @
               [Ipc_socket (- 1), Perror ''failed to open a socket'']\<rparr>)"
proof -
  have "conn_failed ce_nosock0 \<and>
   session_run ''/tmp/ipc.sock'' 7 1 ie_ok [Timer_fire ce_nosock0] dev0 =
     Some (st_disconnected\<lparr>armed := Map.empty, clock := 1000,
             calls := calls st_disconnected @
               [Ipc_socket (- 1), Perror ''failed to open a socket'']\<rparr>)"
    by (simp add: conn_failed_def session_run_def host_step_def ipc_defs sample_defs Let_def)
      auto
  moreover have "conn_failed ce_refused \<and>
   session_run ''/tmp/ipc.sock'' 7 1 ie_ok [Timer_fire ce_refused] dev_up =
     Some (st_disconnected\<lparr>link_down := False, armed := [1 \<mapsto> 2000], clock := 1000,
             calls := calls st_disconnected @
               [Ipc_socket 5, Ipc_connect 5 ''/tmp/ipc.sock'' 13 (- 1),
                Perror ''failed to connect'', Close 5, Qemu_mod_timer 1 2000]\<rparr>) \<and>
   session_run ''/tmp/ipc.sock'' 7 1 ie_ok [Timer_fire ce_refused] dev0 =
     Some (st_disconnected\<lparr>armed := [1 \<mapsto> 2000], clock := 1000,
             calls := calls st_disconnected @
               [Ipc_socket 5, Ipc_connect 5 ''/tmp/ipc.sock'' 13 (- 1),
                Perror ''failed to connect'', Close 5, Qemu_mod_timer 1 2000]\<rparr>)"
    by (simp add: conn_failed_def session_run_def host_step_def ipc_defs sample_defs Let_def)
      auto
  moreover have "Virtio_net_set_link_down 1 \<notin>
     set (calls st_disconnected @
            [Ipc_socket 5, Ipc_connect 5 ''/tmp/ipc.sock'' 13 (- 1),
             Perror ''failed to connect'', Close 5, Qemu_mod_timer 1 2000])"
    by (simp add: st_disconnected_def)
  ultimately show ?thesis by simp
qed

theorem C2_retryable_witness:
  "ipc st_disconnected = Some node0 \<and> ts st_disconnected \<in> live_timers st_disconnected \<and>
   conn_failed ce_noreconf \<and> conn_errno_set ce_noreconf \<and>
   (\<exists>s'. ipc_connect_to_server ce_noreconf st_disconnected = Some s' \<and>
      link_down s' \<and> fd_handler s' = Map.empty \<and> armed s' = [1 \<mapsto> 1000]) \<and>
   ipc st_connected = Some node0 \<and> ts st_connected \<in> live_timers st_connected \<and>
   recv_ret re_closed < 0 \<and>
   (\<exists>s'. ipc_reader re_closed st_connected = Some s' \<and> link_down s' \<and>
      fd_handler s' = Map.empty \<and> armed s' = [1 \<mapsto> 2000]) \<and>
   uint (cinterval st_connected) \<le> 4294967 \<and>
   uint (cinterval st_connected * 1000) = 1000"
proof -
  have a: "ipc st_disconnected = Some node0" "ts st_disconnected \<in> live_timers st_disconnected"
    "conn_failed ce_noreconf \<and> conn_errno_set ce_noreconf"
    "ipc st_connected = Some node0" "ts st_connected \<in> live_timers st_connected"
    "recv_ret re_closed < 0"
    by (simp_all add: sample_defs conn_failed_def conn_errno_set_def)
  have b: "link_down st_disconnected" "fd_handler st_disconnected = Map.empty"
    "(armed st_disconnected)(ts st_disconnected \<mapsto>
        clock st_disconnected + uint (cinterval st_disconnected * 1000)) = [1 \<mapsto> 1000]"
    "(fd_handler st_connected)(ipc_get_fd node0 := None) = Map.empty"
    "(armed st_connected)(ts st_connected \<mapsto>
        clock st_connected + uint (cinterval st_connected * 1000)) = [1 \<mapsto> 2000]"
    by (simp_all add: sample_defs ipc_get_fd_def)
  from C2_retryable_errors [OF a(1) a(2), of ce_noreconf re_closed] a(3) b have
    c: "\<exists>s'. ipc_connect_to_server ce_noreconf st_disconnected = Some s' \<and>
      link_down s' \<and> fd_handler s' = Map.empty \<and> armed s' = [1 \<mapsto> 1000]"
    by auto
  from C2_retryable_errors [OF a(4) a(5), of ce_noreconf re_closed] a(6) b have
    d: "\<exists>s'. ipc_reader re_closed st_connected = Some s' \<and> link_down s' \<and>
      fd_handler s' = Map.empty \<and> armed s' = [1 \<mapsto> 2000]"
    by auto
  have e: "uint (cinterval st_connected) \<le> 4294967" "uint (cinterval st_connected) = 1"
    by (simp_all add: sample_defs)
  from C2_retryable_errors [OF a(4) a(5), of ce_noreconf re_closed] e have
    f: "uint (cinterval st_connected * 1000) = 1000"
    by simp
  from a c d e f show ?thesis by blast
qed

text \<open>
  C3 (as amended). After a successful \<open>ipc_init\<close> at time \<open>now\<close> with retry interval
  \<open>ci\<close> seconds and a peer that is absent (every attempt fails, \<open>errno\<close> non-zero after
  a failed \<open>ipc_socket\<close>): \<open>ipc_init\<close> itself makes no connection attempt, its five
  calls are listed and the last one arms the timer; the first attempt happens when the
  timer fires, one interval after initialisation, the \<open>k\<close>-th attempt at
  \<open>now + k * D\<close> milliseconds with \<open>D\<close> the 32-bit product \<open>ci * 1000\<close>, which is
  \<open>ci\<close> seconds whenever \<open>ci \<le> 4294967\<close>. The link flag is never touched: it keeps
  the value it had at initialisation (it remains DOWN if it was DOWN), and the Session
  stays disconnected.
\<close>

theorem C3_retry_schedule:
  assumes "\<not> init_failed ie" and "\<forall>e\<in>set es. conn_failed e \<and> conn_errno_set e"
  shows "\<exists>s0 s ram_fd ram_size.
           ipc_init path n ci ie (zeroed_device ld fds now) = Some s0 \<and>
           calls s0 =
             [Ipc_socket (i_socket_ret ie), Malloc True,
              Ipc_node_init n (i_socket_ret ie) ram_fd ram_size 0,
              Qemu_new_timer_ms (new_timer ie),
              Qemu_mod_timer (new_timer ie) (now + uint (ci * 1000))] \<and>
           armed s0 (ts s0) = Some (now + uint (ci * 1000)) \<and> clock s0 = now \<and>
           retry_run es s0 =
             Some (map (\<lambda>k. now + int (Suc k) * uint (ci * 1000)) [0..<length es], s) \<and>
           link_down s = ld \<and> \<not> connected s \<and>
           (uint ci \<le> 4294967 \<longrightarrow> uint (ci * 1000) = uint ci * 1000)"
proof -
  let ?z = "(zeroed_device ld fds now)\<lparr>socketpath := path, nid := n, cinterval := ci\<rparr>"
  let ?D = "uint (ci * 1000)"
  obtain ram_fd ram_size where ram: "find_ram (linux_target ie) (ram_blocks ie) = (ram_fd, ram_size)"
    by (cases "find_ram (linux_target ie) (ram_blocks ie)") blast
  let ?c = "\<lparr>node_nid = n, node_fd = i_socket_ret ie, node_ram_fd = ram_fd,
             node_ram_size = ram_size\<rparr>"
  let ?s0 = "?z\<lparr>ipc := Some ?c, ts := new_timer ie,
                 open_fds := insert (i_socket_ret ie) fds,
                 live_timers := {new_timer ie},
                 armed := [new_timer ie \<mapsto> now + ?D],
                 calls := [Ipc_socket (i_socket_ret ie), Malloc True,
                           Ipc_node_init n (i_socket_ret ie) ram_fd ram_size 0,
                           Qemu_new_timer_ms (new_timer ie),
                           Qemu_mod_timer (new_timer ie) (now + ?D)]\<rparr>"
  have i: "ipc_init path n ci ie (zeroed_device ld fds now) = Some ?s0"
    using assms(1) ram
    by (simp add: init_failed_def ram_missing_def ipc_init_def init_client_def Let_def
          ipc_socket_def log_call_def qemu_new_timer_ms_def ipc_set_connector_def
          qemu_mod_timer_def zeroed_device_def)
  have p: "ipc ?s0 = Some ?c" "ts ?s0 \<in> live_timers ?s0" "armed ?s0 (ts ?s0) = Some (now + ?D)"
    "clock ?s0 \<le> now + ?D"
    by (simp_all add: zeroed_device_def)
  from retry_run_failures [OF p assms(2)] obtain s where
    r: "retry_run es ?s0 =
          Some (map (\<lambda>k. now + ?D + int k * uint (cinterval ?s0 * 1000)) [0..<length es], s)"
       "link_down s = link_down ?s0" "fd_handler s = fd_handler ?s0" "ipc s = ipc ?s0"
    by blast
  have m: "(\<lambda>k. now + ?D + int k * uint (cinterval ?s0 * 1000)) =
           (\<lambda>k. now + int (Suc k) * ?D)"
    by (simp add: algebra_simps)
  have "retry_run es ?s0 = Some (map (\<lambda>k. now + int (Suc k) * ?D) [0..<length es], s)"
    using r(1) unfolding m .
  moreover have "link_down s = ld" "\<not> connected s"
    using r by (simp_all add: connected_def zeroed_device_def)
  moreover have "calls ?s0 =
             [Ipc_socket (i_socket_ret ie), Malloc True,
              Ipc_node_init n (i_socket_ret ie) ram_fd ram_size 0,
              Qemu_new_timer_ms (new_timer ie),
              Qemu_mod_timer (new_timer ie) (now + ?D)]"
    "clock ?s0 = now"
    by (simp_all add: zeroed_device_def)
  moreover have "uint ci \<le> 4294967 \<longrightarrow> ?D = uint ci * 1000"
    using uint_interval_ms by blast
  ultimately show ?thesis using i p(3) by blast
qed

text \<open>
  C3 as stated puts the first connection attempt at the time of initialisation. With a
  retry interval of one second and initialisation at time 0, the state after \<open>ipc_init\<close>
  shows no connection attempt and a timer armed for 1000 ms; the attempts of an absent
  peer happen at 1000, 2000 and 3000 ms.
\<close>

theorem C3_first_attempt_counterexample:
  "session_run ''/tmp/ipc.sock'' 7 1 ie_ok [] dev0 = Some st_disconnected \<and>
   clock st_disconnected = 0 \<and>
   calls st_disconnected =
     [Ipc_socket 4, Malloc True, Ipc_node_init 7 4 3 4096 0, Qemu_new_timer_ms 1,
      Qemu_mod_timer 1 1000] \<and>
   armed st_disconnected (ts st_disconnected) = Some 1000 \<and>
   map_option fst (retry_run [ce_refused, ce_refused, ce_refused] st_disconnected) =
     Some [1000, 2000, 3000]"
proof -
  have "map_option fst (retry_run [ce_refused, ce_refused, ce_refused] st_disconnected) =
     Some [1000, 2000, 3000]"
    by (simp add: host_step_def ipc_defs sample_defs Let_def)
  with reach_disconnected show ?thesis by (simp add: st_disconnected_def)
qed

theorem C3_retry_schedule_witness:
  "\<not> init_failed ie_ok \<and>
   (conn_failed ce_refused \<and> conn_errno_set ce_refused) \<and>
   (conn_failed ce_nosock \<and> conn_errno_set ce_nosock) \<and>
   ipc_init ''/tmp/ipc.sock'' 7 1 ie_ok dev0 = Some st_disconnected \<and>
   (\<exists>s. retry_run [ce_refused, ce_nosock] st_disconnected = Some ([1000, 2000], s) \<and>
      link_down s \<and> \<not> connected s) \<and>
   uint (1 :: uint32_t) \<le> 4294967 \<and> uint (1 * 1000 :: uint32_t) = 1000"
proof -
  have a: "\<not> init_failed ie_ok"
    by (simp add: init_failed_def ram_missing_def find_ram_def ie_ok_def)
  have b: "\<forall>e\<in>set [ce_refused, ce_nosock]. conn_failed e \<and> conn_errno_set e"
    by (simp add: conn_failed_def conn_errno_set_def sample_defs)
  have i: "ipc_init ''/tmp/ipc.sock'' 7 1 ie_ok dev0 = Some st_disconnected"
    using reach_disconnected by (simp add: session_run_def split: option.splits)
  have m: "map (\<lambda>k. 0 + int (Suc k) * uint (1 * 1000 :: uint32_t)) [0..<length [ce_refused, ce_nosock]]
           = [1000, 2000]"
    by (simp add: upt_rec)
  from C3_retry_schedule [OF a b, of "''/tmp/ipc.sock''" 7 1 True "{0, 1, 2, 3}" 0,
      folded dev0_def] i m
  have "\<exists>s. retry_run [ce_refused, ce_nosock] st_disconnected = Some ([1000, 2000], s) \<and>
      link_down s \<and> \<not> connected s"
    by auto
  with a b i show ?thesis by simp
qed

text \<open>
  C4. The interval between consecutive failed attempts is constant: every re-arm adds
  the same value \<open>uint (cinterval * 1000)\<close> to the current time, whatever the number of
  failures before (lemma \<open>retry_run_failures\<close>), and that value is the configured number
  of seconds in milliseconds as long as it fits 32 bits (lemma \<open>uint_interval_ms\<close>).
  Beyond that the product is computed in \<open>uint32_t\<close> and wraps before it is widened for
  the addition to the 64-bit clock: with \<open>cinterval = 4294968\<close> seconds the timer is
  armed 704 ms ahead, and the attempts of an absent peer follow each other every
  704 ms instead of every 4294968000 ms.
\<close>

theorem C4_interval_wraps:
  "ipc_init ''/tmp/ipc.sock'' 7 4294968 ie_ok dev0 =
     Some (st_disconnected\<lparr>cinterval := 4294968, armed := [1 \<mapsto> 704],
             calls := [Ipc_socket 4, Malloc True, Ipc_node_init 7 4 3 4096 0,
                       Qemu_new_timer_ms 1, Qemu_mod_timer 1 704]\<rparr>) \<and>
   map_option fst
     (retry_run [ce_refused, ce_refused]
        (st_disconnected\<lparr>cinterval := 4294968, armed := [1 \<mapsto> 704]\<rparr>)) = Some [704, 1408] \<and>
   uint (4294968 :: uint32_t) * 1000 = 4294968000"
proof -
  have w: "uint (4294968 * 1000 :: uint32_t) = 704" by simp
  have "ipc_init ''/tmp/ipc.sock'' 7 4294968 ie_ok dev0 =
     Some (st_disconnected\<lparr>cinterval := 4294968, armed := [1 \<mapsto> 704],
             calls := [Ipc_socket 4, Malloc True, Ipc_node_init 7 4 3 4096 0,
                       Qemu_new_timer_ms 1, Qemu_mod_timer 1 704]\<rparr>)"
    by (simp add: ipc_defs sample_defs Let_def) auto
  moreover have "map_option fst
     (retry_run [ce_refused, ce_refused]
        (st_disconnected\<lparr>cinterval := 4294968, armed := [1 \<mapsto> 704]\<rparr>)) = Some [704, 1408]"
    by (simp add: host_step_def ipc_defs sample_defs Let_def)
  ultimately show ?thesis by simp
qed

text \<open>
  C5 (as amended). A connection attempt (\<open>connect_to_server\<close> with a Session in the
  slot) performs the handshake in this order, and the failure of a step ends the attempt
  with none of the later steps and with a non-zero result; after a failed
  \<open>ipc_socket\<close> the result is \<open>-errno\<close>, non-zero when the failed call has left
  \<open>errno\<close> non-zero. (1) \<open>ipc_socket\<close> opens a new descriptor, \<open>ipc_connect\<close>
  connects it to \<open>vdev->socketpath\<close>; (2) \<open>ipc_client_init_sequence\<close> sends the init
  message for the node, which holds the memory descriptor that \<open>init_client\<close> found,
  with the low-memory limit: the value of \<open>QEMU_BELOW_4G_RAM_END\<close> where it is defined,
  \<open>0xe0000000\<close> otherwise; (3) \<open>dup2\<close> installs the new descriptor at the stable
  one, \<open>close\<close> closes the original; (4) \<open>ipc_client_reconfigure\<close> sends the
  reconfigure message; (5) within the attempt itself the link is reported up and
  \<open>ipc_reader\<close> is registered on the stable descriptor, and then the result is 0; the
  timer callback does nothing after that. The calls of every outcome are listed in full.
\<close>

theorem C5_handshake_order:
  assumes "ipc s = Some c" and "fd = socket_ret e" and "newfd = ipc_get_fd c"
    and "lm = (case QEMU_BELOW_4G_RAM_END e of Some v \<Rightarrow> v | None \<Rightarrow> 0xe0000000)"
  shows
   "(\<not> conn_failed e \<longrightarrow>
       connect_to_server e s =
         Some (0, s\<lparr>link_down := False,
                    open_fds := insert newfd (insert fd (open_fds s)) - {fd},
                    fd_handler := (fd_handler s)(newfd \<mapsto> Ipc_reader),
                    calls := calls s @
                      [Ipc_socket fd,
                       Ipc_connect fd (socketpath s) (length (socketpath s)) 0,
                       Ipc_client_init_sequence c lm fd (init_sequence_ret e),
                       Dup2 fd newfd (dup2_ret e),
                       Close fd,
                       Ipc_client_reconfigure c (reconfigure_ret e),
                       Virtio_net_set_link_down 0,
                       Qemu_set_fd_handler newfd (Some Ipc_reader)]\<rparr>) \<and>
       ipc_connect_to_server e s = map_option snd (connect_to_server e s)) \<and>
    (socket_ret e < 0 \<longrightarrow>
       connect_to_server e s =
         Some (- socket_errno e,
               s\<lparr>calls := calls s @ [Ipc_socket fd, Perror ''failed to open a socket'']\<rparr>)) \<and>
    (0 \<le> socket_ret e \<and> connect_ret e \<noteq> 0 \<longrightarrow>
       connect_to_server e s =
         Some (- EFAULT,
               s\<lparr>open_fds := insert fd (open_fds s) - {fd},
                  calls := calls s @
                    [Ipc_socket fd,
                     Ipc_connect fd (socketpath s) (length (socketpath s)) (connect_ret e),
                     Perror ''failed to connect'', Close fd]\<rparr>)) \<and>
    (0 \<le> socket_ret e \<and> connect_ret e = 0 \<and> init_sequence_ret e < 0 \<longrightarrow>
       connect_to_server e s =
         Some (- EFAULT,
               s\<lparr>open_fds := insert fd (open_fds s) - {fd},
                  calls := calls s @
                    [Ipc_socket fd,
                     Ipc_connect fd (socketpath s) (length (socketpath s)) 0,
                     Ipc_client_init_sequence c lm fd (init_sequence_ret e),
                     Perror ''init sequence failed'', Close fd]\<rparr>)) \<and>
    (0 \<le> socket_ret e \<and> connect_ret e = 0 \<and> 0 \<le> init_sequence_ret e \<and> dup2_ret e < 0 \<longrightarrow>
       connect_to_server e s =
         Some (- EFAULT,
               s\<lparr>open_fds := insert fd (open_fds s) - {fd},
                  calls := calls s @
                    [Ipc_socket fd,
                     Ipc_connect fd (socketpath s) (length (socketpath s)) 0,
                     Ipc_client_init_sequence c lm fd (init_sequence_ret e),
                     Dup2 fd newfd (dup2_ret e),
                     Perror ''dup2 failed'', Close fd]\<rparr>)) \<and>
    (0 \<le> socket_ret e \<and> connect_ret e = 0 \<and> 0 \<le> init_sequence_ret e \<and> 0 \<le> dup2_ret e \<and>
     reconfigure_ret e < 0 \<longrightarrow>
       connect_to_server e s =
         Some (- EFAULT,
               s\<lparr>open_fds := insert newfd (insert fd (open_fds s)) - {fd},
                  calls := calls s @
                    [Ipc_socket fd,
                     Ipc_connect fd (socketpath s) (length (socketpath s)) 0,
                     Ipc_client_init_sequence c lm fd (init_sequence_ret e),
                     Dup2 fd newfd (dup2_ret e),
                     Close fd,
                     Ipc_client_reconfigure c (reconfigure_ret e),
                     Perror ''reconfigure failed'', Shutdown_rdwr newfd]\<rparr>)) \<and>
    (conn_failed e \<and> conn_errno_set e \<longrightarrow>
       (\<exists>r s'. connect_to_server e s = Some (r, s') \<and> r \<noteq> 0 \<and>
          fd_handler s' = fd_handler s \<and> link_down s' = link_down s)) \<and>
    (\<not> init_failed ie \<longrightarrow>
       (\<exists>s0. ipc_init path n ci ie z = Some s0 \<and>
          ipc s0 = Some \<lparr>node_nid = n, node_fd = i_socket_ret ie,
                          node_ram_fd = fst (find_ram (linux_target ie) (ram_blocks ie)),
                          node_ram_size = snd (find_ram (linux_target ie) (ram_blocks ie))\<rparr>))"
proof -
  have lm: "lowmem_limit e = lm"
    using assms(4) by (simp add: lowmem_limit_def)
  have ok: "\<not> conn_failed e \<Longrightarrow>
       connect_to_server e s =
         Some (0, s\<lparr>link_down := False,
                    open_fds := insert newfd (insert fd (open_fds s)) - {fd},
                    fd_handler := (fd_handler s)(newfd \<mapsto> Ipc_reader),
                    calls := calls s @
                      [Ipc_socket fd,
                       Ipc_connect fd (socketpath s) (length (socketpath s)) 0,
                       Ipc_client_init_sequence c lm fd (init_sequence_ret e),
                       Dup2 fd newfd (dup2_ret e),
                       Close fd,
                       Ipc_client_reconfigure c (reconfigure_ret e),
                       Virtio_net_set_link_down 0,
                       Qemu_set_fd_handler newfd (Some Ipc_reader)]\<rparr>)"
    using assms(1-3)
    by (simp add: lm conn_failed_def connect_to_server_def Let_def ipc_socket_def log_call_def
          dup2_def close_def set_link_status_def virtio_net_set_link_down_def
          qemu_set_fd_handler_def)
  have cb: "\<not> conn_failed e \<Longrightarrow>
       ipc_connect_to_server e s = map_option snd (connect_to_server e s)"
    using ok by (simp add: ipc_connect_to_server_def)
  have f1: "socket_ret e < 0 \<Longrightarrow>
       connect_to_server e s =
         Some (- socket_errno e,
               s\<lparr>calls := calls s @ [Ipc_socket fd, Perror ''failed to open a socket'']\<rparr>)"
    using assms(1-3)
    by (simp add: lm connect_to_server_def Let_def ipc_socket_def log_call_def perror_def)
  have f2: "0 \<le> socket_ret e \<and> connect_ret e \<noteq> 0 \<Longrightarrow>
       connect_to_server e s =
         Some (- EFAULT,
               s\<lparr>open_fds := insert fd (open_fds s) - {fd},
                  calls := calls s @
                    [Ipc_socket fd,
                     Ipc_connect fd (socketpath s) (length (socketpath s)) (connect_ret e),
                     Perror ''failed to connect'', Close fd]\<rparr>)"
    using assms(1-3)
    by (simp add: lm connect_to_server_def Let_def ipc_socket_def log_call_def perror_def
          err1_def close_def)
  have f3: "0 \<le> socket_ret e \<and> connect_ret e = 0 \<and> init_sequence_ret e < 0 \<Longrightarrow>
       connect_to_server e s =
         Some (- EFAULT,
               s\<lparr>open_fds := insert fd (open_fds s) - {fd},
                  calls := calls s @
                    [Ipc_socket fd,
                     Ipc_connect fd (socketpath s) (length (socketpath s)) 0,
                     Ipc_client_init_sequence c lm fd (init_sequence_ret e),
                     Perror ''init sequence failed'', Close fd]\<rparr>)"
    using assms(1-3)
    by (simp add: lm connect_to_server_def Let_def ipc_socket_def log_call_def perror_def
          err1_def close_def)
  have f4: "0 \<le> socket_ret e \<and> connect_ret e = 0 \<and> 0 \<le> init_sequence_ret e \<and>
       dup2_ret e < 0 \<Longrightarrow>
       connect_to_server e s =
         Some (- EFAULT,
               s\<lparr>open_fds := insert fd (open_fds s) - {fd},
                  calls := calls s @
                    [Ipc_socket fd,
                     Ipc_connect fd (socketpath s) (length (socketpath s)) 0,
                     Ipc_client_init_sequence c lm fd (init_sequence_ret e),
                     Dup2 fd newfd (dup2_ret e),
                     Perror ''dup2 failed'', Close fd]\<rparr>)"
    using assms(1-3)
    by (simp add: lm connect_to_server_def Let_def ipc_socket_def log_call_def perror_def
          err1_def close_def dup2_def)
  have f5: "0 \<le> socket_ret e \<and> connect_ret e = 0 \<and> 0 \<le> init_sequence_ret e \<and>
       0 \<le> dup2_ret e \<and> reconfigure_ret e < 0 \<Longrightarrow>
       connect_to_server e s =
         Some (- EFAULT,
               s\<lparr>open_fds := insert newfd (insert fd (open_fds s)) - {fd},
                  calls := calls s @
                    [Ipc_socket fd,
                     Ipc_connect fd (socketpath s) (length (socketpath s)) 0,
                     Ipc_client_init_sequence c lm fd (init_sequence_ret e),
                     Dup2 fd newfd (dup2_ret e),
                     Close fd,
                     Ipc_client_reconfigure c (reconfigure_ret e),
                     Perror ''reconfigure failed'', Shutdown_rdwr newfd]\<rparr>)"
    using assms(1-3)
    by (simp add: lm connect_to_server_def Let_def ipc_socket_def log_call_def perror_def
          err2_def close_def dup2_def shutdown_def)
  have nz: "conn_failed e \<and> conn_errno_set e \<Longrightarrow>
       \<exists>r s'. connect_to_server e s = Some (r, s') \<and> r \<noteq> 0 \<and>
          fd_handler s' = fd_handler s \<and> link_down s' = link_down s"
    using connect_frame [OF assms(1), of e] by blast
  have nd: "\<not> init_failed ie \<Longrightarrow>
       \<exists>s0. ipc_init path n ci ie z = Some s0 \<and>
          ipc s0 = Some \<lparr>node_nid = n, node_fd = i_socket_ret ie,
                          node_ram_fd = fst (find_ram (linux_target ie) (ram_blocks ie)),
                          node_ram_size = snd (find_ram (linux_target ie) (ram_blocks ie))\<rparr>"
    by (cases "find_ram (linux_target ie) (ram_blocks ie)")
      (simp add: init_failed_def ram_missing_def ipc_init_def init_client_def Let_def
         ipc_socket_def log_call_def qemu_new_timer_ms_def ipc_set_connector_def
         qemu_mod_timer_def)
  from ok cb f1 f2 f3 f4 f5 nz nd show ?thesis by blast
qed

text \<open>
  C5 as stated has the read callback installed after the attempt has returned success,
  and has every failing step fail the attempt. The callback is registered by
  \<open>connect_to_server\<close> itself, as its last call before \<open>return 0\<close>: the state it
  returns already holds the handler, and \<open>ipc_connect_to_server\<close> returns that very
  state. And an \<open>ipc_socket\<close> that fails with \<open>errno\<close> at 0 makes the attempt return
  0, which the timer callback takes for a success: it arms nothing.
\<close>

theorem C5_step_order_counterexample:
  "connect_to_server ce_ok st_disconnected =
     Some (0, st_disconnected\<lparr>link_down := False, fd_handler := [4 \<mapsto> Ipc_reader],
                calls := calls st_disconnected @
                  [Ipc_socket 5, Ipc_connect 5 ''/tmp/ipc.sock'' 13 0,
                   Ipc_client_init_sequence node0 0xe0000000 5 0, Dup2 5 4 4, Close 5,
                   Ipc_client_reconfigure node0 0, Virtio_net_set_link_down 0,
                   Qemu_set_fd_handler 4 (Some Ipc_reader)]\<rparr>) \<and>
   ipc_connect_to_server ce_ok st_disconnected =
     map_option snd (connect_to_server ce_ok st_disconnected) \<and>
   socket_ret ce_nosock0 < 0 \<and>
   connect_to_server ce_nosock0 st_disconnected =
     Some (0, st_disconnected\<lparr>calls := calls st_disconnected @
                  [Ipc_socket (- 1), Perror ''failed to open a socket'']\<rparr>) \<and>
   ipc_connect_to_server ce_nosock0 st_disconnected =
     map_option snd (connect_to_server ce_nosock0 st_disconnected)"
proof -
  have a: "connect_to_server ce_ok st_disconnected =
     Some (0, st_disconnected\<lparr>link_down := False, fd_handler := [4 \<mapsto> Ipc_reader],
                calls := calls st_disconnected @
                  [Ipc_socket 5, Ipc_connect 5 ''/tmp/ipc.sock'' 13 0,
                   Ipc_client_init_sequence node0 0xe0000000 5 0, Dup2 5 4 4, Close 5,
                   Ipc_client_reconfigure node0 0, Virtio_net_set_link_down 0,
                   Qemu_set_fd_handler 4 (Some Ipc_reader)]\<rparr>)"
    by (simp add: ipc_defs sample_defs Let_def) auto
  have b: "connect_to_server ce_nosock0 st_disconnected =
     Some (0, st_disconnected\<lparr>calls := calls st_disconnected @
                  [Ipc_socket (- 1), Perror ''failed to open a socket'']\<rparr>)"
    by (simp add: ipc_defs sample_defs Let_def)
  have c: "socket_ret ce_nosock0 < 0" by (simp add: sample_defs)
  from a b c show ?thesis by (simp add: ipc_connect_to_server_def)
qed

theorem C5_handshake_witness:
  "ipc st_disconnected = Some node0 \<and> 5 = socket_ret ce_ok \<and> 4 = ipc_get_fd node0 \<and>
   node_ram_fd node0 = 3 \<and> node_ram_size node0 = 4096 \<and>
   \<not> conn_failed ce_ok \<and>
   connect_to_server ce_ok st_disconnected =
     Some (0, st_disconnected\<lparr>link_down := False, fd_handler := [4 \<mapsto> Ipc_reader],
                calls := calls st_disconnected @
                  [Ipc_socket 5, Ipc_connect 5 ''/tmp/ipc.sock'' 13 0,
                   Ipc_client_init_sequence node0 0xe0000000 5 0, Dup2 5 4 4, Close 5,
                   Ipc_client_reconfigure node0 0, Virtio_net_set_link_down 0,
                   Qemu_set_fd_handler 4 (Some Ipc_reader)]\<rparr>) \<and>
   connect_to_server ce_nosock st_disconnected =
     Some (- 24, st_disconnected\<lparr>calls := calls st_disconnected @
                  [Ipc_socket (- 1), Perror ''failed to open a socket'']\<rparr>) \<and>
   connect_to_server ce_refused st_disconnected =
     Some (- 14, st_disconnected\<lparr>calls := calls st_disconnected @
                  [Ipc_socket 5, Ipc_connect 5 ''/tmp/ipc.sock'' 13 (- 1),
                   Perror ''failed to connect'', Close 5]\<rparr>) \<and>
   connect_to_server ce_noack st_disconnected =
     Some (- 14, st_disconnected\<lparr>calls := calls st_disconnected @
                  [Ipc_socket 5, Ipc_connect 5 ''/tmp/ipc.sock'' 13 0,
                   Ipc_client_init_sequence node0 0xe0000000 5 (- 1),
                   Perror ''init sequence failed'', Close 5]\<rparr>) \<and>
   connect_to_server ce_nodup st_disconnected =
     Some (- 14, st_disconnected\<lparr>calls := calls st_disconnected @
                  [Ipc_socket 5, Ipc_connect 5 ''/tmp/ipc.sock'' 13 0,
                   Ipc_client_init_sequence node0 0xe0000000 5 0, Dup2 5 4 (- 1),
                   Perror ''dup2 failed'', Close 5]\<rparr>) \<and>
   connect_to_server ce_noreconf st_disconnected =
     Some (- 14, st_disconnected\<lparr>calls := calls st_disconnected @
                  [Ipc_socket 5, Ipc_connect 5 ''/tmp/ipc.sock'' 13 0,
                   Ipc_client_init_sequence node0 0xe0000000 5 0, Dup2 5 4 4, Close 5,
                   Ipc_client_reconfigure node0 (- 1), Perror ''reconfigure failed'',
                   Shutdown_rdwr 4]\<rparr>) \<and>
   connect_to_server ce_lowmem st_disconnected =
     Some (0, st_disconnected\<lparr>link_down := False, fd_handler := [4 \<mapsto> Ipc_reader],
                calls := calls st_disconnected @
                  [Ipc_socket 5, Ipc_connect 5 ''/tmp/ipc.sock'' 13 0,
                   Ipc_client_init_sequence node0 0xc0000000 5 0, Dup2 5 4 4, Close 5,
                   Ipc_client_reconfigure node0 0, Virtio_net_set_link_down 0,
                   Qemu_set_fd_handler 4 (Some Ipc_reader)]\<rparr>) \<and>
   \<not> init_failed ie_ok \<and>
   (\<exists>s0. ipc_init ''/tmp/ipc.sock'' 7 1 ie_ok dev0 = Some s0 \<and> ipc s0 = Some node0)"
proof -
  have a: "ipc st_disconnected = Some node0" "ipc_get_fd node0 = 4"
    "node_ram_fd node0 = 3" "node_ram_size node0 = 4096"
    by (simp_all add: sample_defs ipc_get_fd_def)
  have p: "socketpath st_disconnected = ''/tmp/ipc.sock''"
    "open_fds st_disconnected = {0, 1, 2, 3, 4}" "fd_handler st_disconnected = Map.empty"
    by (simp_all add: sample_defs)
  have o: "insert 4 (insert 5 {0, 1, 2, 3, 4}) - {5} = {0, 1, 2, 3, 4 :: int}"
    "insert 5 {0, 1, 2, 3, 4} - {5} = {0, 1, 2, 3, 4 :: int}"
    by auto
  have u: "st_disconnected\<lparr>open_fds := {0, 1, 2, 3, 4}\<rparr> = st_disconnected"
    by (simp add: st_disconnected_def)
  have e1: "socket_ret ce_ok = 5" "\<not> conn_failed ce_ok" "QEMU_BELOW_4G_RAM_END ce_ok = None"
    by (simp_all add: sample_defs conn_failed_def conn_failed_def)
  have r1: "connect_to_server ce_ok st_disconnected =
     Some (0, st_disconnected\<lparr>link_down := False, fd_handler := [4 \<mapsto> Ipc_reader],
                calls := calls st_disconnected @
                  [Ipc_socket 5, Ipc_connect 5 ''/tmp/ipc.sock'' 13 0,
                   Ipc_client_init_sequence node0 0xe0000000 5 0, Dup2 5 4 4, Close 5,
                   Ipc_client_reconfigure node0 0, Virtio_net_set_link_down 0,
                   Qemu_set_fd_handler 4 (Some Ipc_reader)]\<rparr>)"
    using C5_handshake_order [OF a(1) refl refl refl, where e = ce_ok] a(2) e1 p o u
    by (simp add: ce_ok_def)
  have e2: "socket_ret ce_nosock = - 1" "socket_ret ce_nosock < 0" "socket_errno ce_nosock = 24"
    by (simp_all add: sample_defs)
  have r2: "connect_to_server ce_nosock st_disconnected =
     Some (- 24, st_disconnected\<lparr>calls := calls st_disconnected @
                  [Ipc_socket (- 1), Perror ''failed to open a socket'']\<rparr>)"
    using C5_handshake_order [OF a(1) refl refl refl, where e = ce_nosock] a(2) e2 by simp
  have e3: "socket_ret ce_refused = 5" "0 \<le> socket_ret ce_refused \<and> connect_ret ce_refused \<noteq> 0"
    "connect_ret ce_refused = - 1"
    by (simp_all add: sample_defs)
  have r3: "connect_to_server ce_refused st_disconnected =
     Some (- 14, st_disconnected\<lparr>calls := calls st_disconnected @
                  [Ipc_socket 5, Ipc_connect 5 ''/tmp/ipc.sock'' 13 (- 1),
                   Perror ''failed to connect'', Close 5]\<rparr>)"
    using C5_handshake_order [OF a(1) refl refl refl, where e = ce_refused] a(2) e3 p o u by (simp add: EFAULT_def)
  have e4: "socket_ret ce_noack = 5"
    "0 \<le> socket_ret ce_noack \<and> connect_ret ce_noack = 0 \<and> init_sequence_ret ce_noack < 0"
    "init_sequence_ret ce_noack = - 1" "QEMU_BELOW_4G_RAM_END ce_noack = None"
    by (simp_all add: sample_defs conn_failed_def)
  have r4: "connect_to_server ce_noack st_disconnected =
     Some (- 14, st_disconnected\<lparr>calls := calls st_disconnected @
                  [Ipc_socket 5, Ipc_connect 5 ''/tmp/ipc.sock'' 13 0,
                   Ipc_client_init_sequence node0 0xe0000000 5 (- 1),
                   Perror ''init sequence failed'', Close 5]\<rparr>)"
    using C5_handshake_order [OF a(1) refl refl refl, where e = ce_noack] a(2) e4 p o u by (simp add: EFAULT_def)
  have e5: "socket_ret ce_nodup = 5"
    "0 \<le> socket_ret ce_nodup \<and> connect_ret ce_nodup = 0 \<and> 0 \<le> init_sequence_ret ce_nodup \<and>
     dup2_ret ce_nodup < 0"
    "init_sequence_ret ce_nodup = 0" "dup2_ret ce_nodup = - 1"
    "QEMU_BELOW_4G_RAM_END ce_nodup = None"
    by (simp_all add: sample_defs conn_failed_def)
  have r5: "connect_to_server ce_nodup st_disconnected =
     Some (- 14, st_disconnected\<lparr>calls := calls st_disconnected @
                  [Ipc_socket 5, Ipc_connect 5 ''/tmp/ipc.sock'' 13 0,
                   Ipc_client_init_sequence node0 0xe0000000 5 0, Dup2 5 4 (- 1),
                   Perror ''dup2 failed'', Close 5]\<rparr>)"
    using C5_handshake_order [OF a(1) refl refl refl, where e = ce_nodup] a(2) e5 p o u by (simp add: EFAULT_def)
  have e6: "socket_ret ce_noreconf = 5"
    "0 \<le> socket_ret ce_noreconf \<and> connect_ret ce_noreconf = 0 \<and>
     0 \<le> init_sequence_ret ce_noreconf \<and> 0 \<le> dup2_ret ce_noreconf \<and>
     reconfigure_ret ce_noreconf < 0"
    "init_sequence_ret ce_noreconf = 0" "dup2_ret ce_noreconf = 4"
    "reconfigure_ret ce_noreconf = - 1" "QEMU_BELOW_4G_RAM_END ce_noreconf = None"
    by (simp_all add: sample_defs conn_failed_def)
  have r6: "connect_to_server ce_noreconf st_disconnected =
     Some (- 14, st_disconnected\<lparr>calls := calls st_disconnected @
                  [Ipc_socket 5, Ipc_connect 5 ''/tmp/ipc.sock'' 13 0,
                   Ipc_client_init_sequence node0 0xe0000000 5 0, Dup2 5 4 4, Close 5,
                   Ipc_client_reconfigure node0 (- 1), Perror ''reconfigure failed'',
                   Shutdown_rdwr 4]\<rparr>)"
    using C5_handshake_order [OF a(1) refl refl refl, where e = ce_noreconf] a(2) e6 p o u by (simp add: EFAULT_def)
  have e7: "socket_ret ce_lowmem = 5" "\<not> conn_failed ce_lowmem"
    "QEMU_BELOW_4G_RAM_END ce_lowmem = Some 0xc0000000"
    by (simp_all add: sample_defs conn_failed_def)
  have r7: "connect_to_server ce_lowmem st_disconnected =
     Some (0, st_disconnected\<lparr>link_down := False, fd_handler := [4 \<mapsto> Ipc_reader],
                calls := calls st_disconnected @
                  [Ipc_socket 5, Ipc_connect 5 ''/tmp/ipc.sock'' 13 0,
                   Ipc_client_init_sequence node0 0xc0000000 5 0, Dup2 5 4 4, Close 5,
                   Ipc_client_reconfigure node0 0, Virtio_net_set_link_down 0,
                   Qemu_set_fd_handler 4 (Some Ipc_reader)]\<rparr>)"
    using C5_handshake_order [OF a(1) refl refl refl, where e = ce_lowmem] a(2) e7 p o u
    by (simp add: ce_lowmem_def ce_ok_def)
  have i: "\<not> init_failed ie_ok"
    by (simp add: init_failed_def ram_missing_def find_ram_def ie_ok_def)
  have n0: "\<lparr>node_nid = 7, node_fd = i_socket_ret ie_ok,
             node_ram_fd = fst (find_ram (linux_target ie_ok) (ram_blocks ie_ok)),
             node_ram_size = snd (find_ram (linux_target ie_ok) (ram_blocks ie_ok))\<rparr> = node0"
    by (simp add: find_ram_def ie_ok_def node0_def)
  from C5_handshake_order [OF a(1) refl refl refl, where e = ce_ok and ie = ie_ok
      and path = "''/tmp/ipc.sock''" and n = 7 and ci = 1 and z = dev0] i n0
  have r8: "\<exists>s0. ipc_init ''/tmp/ipc.sock'' 7 1 ie_ok dev0 = Some s0 \<and> ipc s0 = Some node0"
    by simp
  from a e1 r1 r2 r3 r4 r5 r6 r7 i r8 show ?thesis by simp
qed

text \<open>
  C6 (as amended). If the guest memory region is not found, or the Session structure
  cannot be allocated, \<open>init_client\<close> returns \<open>-EFAULT\<close> and \<open>ipc_init\<close> fails for
  good: it logs the cause (\<open>perror\<close>) and the line \<open>Fatal error: can't init ipc node
  structure\<close> on the standard error stream, and returns without creating or arming a
  timer. Session slot, timer handle, timers, read handlers and link flag are as before
  the call, and with no timer of the device pending no connection attempt ever follows.
  \<open>ipc_init\<close> returns no value: the caller gets the device back and nothing else.
\<close>

theorem C6_fatal_init_logged_no_retry:
  assumes "ram_missing ie \<or> alloc_failed ie"
  shows "\<exists>s' new. fst (init_client ie (s\<lparr>socketpath := path, nid := n, cinterval := ci\<rparr>)) = - EFAULT \<and>
           ipc_init path n ci ie s = Some s' \<and>
           calls s' = calls s @ new @
             [Perror (if ram_missing ie then ''failed to find ram addr'' else ''failed to malloc''),
              Fprintf_stderr (''Fatal error: can'' @ [CHR 0x27] @
                ''t init ipc node structure'' @ [CHR 0x0A])] \<and>
           (\<forall>t. Qemu_new_timer_ms t \<notin> set new) \<and> (\<forall>t d. Qemu_mod_timer t d \<notin> set new) \<and>
           ipc s' = ipc s \<and> ts s' = ts s \<and> live_timers s' = live_timers s \<and>
           armed s' = armed s \<and> fd_handler s' = fd_handler s \<and> link_down s' = link_down s \<and>
           (armed s (ts s) = None \<longrightarrow> (\<forall>es. retry_run es s' = Some ([], s')))"
proof -
  have r: "retry_run es x = Some ([], x)" if "armed x (ts x) = None" for es x
    using that by (cases es) simp_all
  from assms show ?thesis
    by (auto simp: r alloc_failed_def ram_missing_def ipc_init_def init_client_def Let_def
          log_call_def perror_def fprintf_stderr_def ipc_socket_def EFAULT_def
          split: prod.splits)
qed

lemma noram_init_sample:
  "ipc_init ''/tmp/ipc.sock'' 7 1 ie_noram dev0 =
     Some (dev0\<lparr>socketpath := ''/tmp/ipc.sock'', nid := 7, cinterval := 1,
                calls := [Perror ''failed to find ram addr'',
                          Fprintf_stderr (''Fatal error: can'' @ [CHR 0x27] @
                            ''t init ipc node structure'' @ [CHR 0x0A])]\<rparr>)"
  by (simp add: sample_defs ipc_defs Let_def)

lemma sockfail_init_sample:
  "ipc_init ''/tmp/ipc.sock'' 7 1 ie_sockfail dev0 =
     Some (dev0\<lparr>socketpath := ''/tmp/ipc.sock'', nid := 7, cinterval := 1,
                calls := [Ipc_socket (- 1), Perror ''failed to open a socket'',
                          Fprintf_stderr (''Fatal error: can'' @ [CHR 0x27] @
                            ''t init ipc node structure'' @ [CHR 0x0A])]\<rparr>)"
  by (simp add: sample_defs ipc_defs Let_def)

text \<open>
  C6 as stated also says that the error is surfaced to the caller of initialize. It is
  not: \<open>ipc_init\<close> is a \<open>void\<close> function and drops the value of \<open>init_client\<close>. A
  missing memory region (\<open>init_client\<close> returns -14) and a socket that cannot be
  opened (-24) hand the caller the same device, the one it passed in with the three
  configuration fields stored; only the lines on the error stream differ.
\<close>

theorem C6_error_not_surfaced_counterexample:
  "ram_missing ie_noram \<and>
   fst (init_client ie_noram (dev0\<lparr>socketpath := ''/tmp/ipc.sock'', nid := 7, cinterval := 1\<rparr>))
     = - 14 \<and>
   fst (init_client ie_sockfail (dev0\<lparr>socketpath := ''/tmp/ipc.sock'', nid := 7, cinterval := 1\<rparr>))
     = - 24 \<and>
   ipc_init ''/tmp/ipc.sock'' 7 1 ie_noram dev0 =
     Some (dev0\<lparr>socketpath := ''/tmp/ipc.sock'', nid := 7, cinterval := 1,
                calls := [Perror ''failed to find ram addr'',
                          Fprintf_stderr (''Fatal error: can'' @ [CHR 0x27] @
                            ''t init ipc node structure'' @ [CHR 0x0A])]\<rparr>) \<and>
   map_option (calls_update (\<lambda>_. [])) (ipc_init ''/tmp/ipc.sock'' 7 1 ie_noram dev0) =
   map_option (calls_update (\<lambda>_. [])) (ipc_init ''/tmp/ipc.sock'' 7 1 ie_sockfail dev0)"
proof -
  have "ram_missing ie_noram" by (simp add: ram_missing_def sample_defs find_ram_def)
  moreover have
    "fst (init_client ie_noram (dev0\<lparr>socketpath := ''/tmp/ipc.sock'', nid := 7, cinterval := 1\<rparr>))
       = - 14"
    by (simp add: sample_defs ipc_defs Let_def)
  moreover have
    "fst (init_client ie_sockfail (dev0\<lparr>socketpath := ''/tmp/ipc.sock'', nid := 7, cinterval := 1\<rparr>))
       = - 24"
    by (simp add: sample_defs ipc_defs Let_def)
  ultimately show ?thesis
    by (simp add: noram_init_sample sockfail_init_sample)
qed

theorem C6_fatal_init_witness:
  "(ram_missing ie_noram \<or> alloc_failed ie_noram) \<and>
   (\<exists>s'. ipc_init ''/tmp/ipc.sock'' 7 1 ie_noram dev0 = Some s' \<and>
      calls s' = [Perror ''failed to find ram addr'',
                  Fprintf_stderr (''Fatal error: can'' @ [CHR 0x27] @
                    ''t init ipc node structure'' @ [CHR 0x0A])] \<and>
      ipc s' = None \<and> live_timers s' = {} \<and> armed s' = Map.empty \<and>
      retry_run [ce_ok, ce_ok] s' = Some ([], s'))"
proof -
  have a: "ram_missing ie_noram \<or> alloc_failed ie_noram"
    by (simp add: ram_missing_def sample_defs find_ram_def)
  have z: "armed dev0 (ts dev0) = None" "ipc dev0 = None" "live_timers dev0 = {}"
    "armed dev0 = Map.empty"
    by (simp_all add: sample_defs)
  from C6_fatal_init_logged_no_retry [OF a, where s = dev0 and path = "''/tmp/ipc.sock''"
      and n = 7 and ci = 1] z obtain s' where
    "ipc_init ''/tmp/ipc.sock'' 7 1 ie_noram dev0 = Some s'" "ipc s' = None"
    "live_timers s' = {}" "armed s' = Map.empty" "retry_run [ce_ok, ce_ok] s' = Some ([], s')"
    by auto
  with a noram_init_sample show ?thesis by auto
qed

text \<open>
  C7. \<open>ipc_exit\<close> is idempotent. With an empty Session slot (before \<open>ipc_init\<close>, or
  after an \<open>ipc_init\<close> that failed) it returns at once and changes nothing. Whenever it
  returns, the slot is empty afterwards, so that a second call changes nothing. In every
  state that a session reaches, whether or not a connection was ever established, it
  does return (the timer it deletes and frees is live), and the two calls together
  release the timer, the read handler, the descriptor and the Session once each: the
  calls logged by the first are listed, the second logs none.
\<close>

theorem C7_teardown_idempotent:
  "(ipc s = None \<longrightarrow> ipc_exit s = Some s) \<and>
   (\<forall>s'. ipc_exit s = Some s' \<longrightarrow> ipc s' = None \<and> ipc_exit s' = Some s') \<and>
   (init_errno_set ie \<longrightarrow>
      (\<exists>r s1. session_run path n ci ie evs (zeroed_device ld fds now) = Some r \<and>
         ipc_exit r = Some s1 \<and> ipc_exit s1 = Some s1 \<and> ipc s1 = None \<and>
         calls s1 = calls r @
           (case ipc r of
              None \<Rightarrow> []
            | Some c \<Rightarrow>
                [Qemu_del_timer (ts r), Qemu_free_timer (ts r),
                 Qemu_set_fd_handler (ipc_get_fd c) None, Close (ipc_get_fd c),
                 Virtio_net_set_link_down 1, Free c])))"
proof (intro conjI impI allI)
  show "ipc_exit s = Some s" if "ipc s = None" using that by (rule exit_none)
next
  fix s' assume e: "ipc_exit s = Some s'"
  show "ipc s' = None"
    using e by (auto simp: ipc_defs Let_def split: option.splits if_splits)
  then show "ipc_exit s' = Some s'" by (rule exit_none)
next
  assume "init_errno_set ie"
  from session_sane [OF this, of path n ci evs ld fds now] obtain r where
    r: "session_run path n ci ie evs (zeroed_device ld fds now) = Some r" "sane r" by blast
  show "\<exists>r s1. session_run path n ci ie evs (zeroed_device ld fds now) = Some r \<and>
         ipc_exit r = Some s1 \<and> ipc_exit s1 = Some s1 \<and> ipc s1 = None \<and>
         calls s1 = calls r @
           (case ipc r of
              None \<Rightarrow> []
            | Some c \<Rightarrow>
                [Qemu_del_timer (ts r), Qemu_free_timer (ts r),
                 Qemu_set_fd_handler (ipc_get_fd c) None, Close (ipc_get_fd c),
                 Virtio_net_set_link_down 1, Free c])"
  proof (cases "ipc r")
    case None
    with r exit_none [OF None] show ?thesis by simp
  next
    case (Some c)
    with r have "ts r \<in> live_timers r" by (simp add: sane_def)
    from exit_frame [OF Some this] obtain s1 where
      "ipc_exit r = Some s1" "ipc s1 = None"
      "calls s1 = calls r @
             [Qemu_del_timer (ts r), Qemu_free_timer (ts r),
              Qemu_set_fd_handler (ipc_get_fd c) None, Close (ipc_get_fd c),
              Virtio_net_set_link_down 1, Free c]"
      by blast
    with r Some exit_none [of s1] show ?thesis by simp
  qed
qed

theorem C7_teardown_witness:
  "ipc dev0 = None \<and> ipc_exit dev0 = Some dev0 \<and> init_errno_set ie_ok \<and>
   session_run ''/tmp/ipc.sock'' 7 1 ie_ok [Timer_fire ce_ok] dev0 = Some st_connected \<and>
   (\<exists>s1. ipc_exit st_connected = Some s1 \<and> ipc_exit s1 = Some s1 \<and> ipc s1 = None \<and>
      calls s1 = calls st_connected @
        [Qemu_del_timer 1, Qemu_free_timer 1, Qemu_set_fd_handler 4 None, Close 4,
         Virtio_net_set_link_down 1, Free node0]) \<and>
   session_run ''/tmp/ipc.sock'' 7 1 ie_noram [Teardown, Teardown] dev0 =
     session_run ''/tmp/ipc.sock'' 7 1 ie_noram [] dev0"
proof -
  have a: "ipc dev0 = None" by (simp add: sample_defs)
  have b: "init_errno_set ie_ok" by (simp add: init_errno_set_def ie_ok_def)
  have c: "ipc st_connected = Some node0" "ts st_connected = 1" "ipc_get_fd node0 = 4"
    by (simp_all add: sample_defs ipc_get_fd_def)
  note t = C7_teardown_idempotent [of dev0 ie_ok "''/tmp/ipc.sock''" 7 1 "[Timer_fire ce_ok]"
      True "{0, 1, 2, 3}" 0, folded dev0_def]
  from t a have d: "ipc_exit dev0 = Some dev0" by blast
  from t b obtain r s1 where
    "session_run ''/tmp/ipc.sock'' 7 1 ie_ok [Timer_fire ce_ok] dev0 = Some r"
    "ipc_exit r = Some s1" "ipc_exit s1 = Some s1" "ipc s1 = None"
    "calls s1 = calls r @
           (case ipc r of
              None \<Rightarrow> []
            | Some c \<Rightarrow>
                [Qemu_del_timer (ts r), Qemu_free_timer (ts r),
                 Qemu_set_fd_handler (ipc_get_fd c) None, Close (ipc_get_fd c),
                 Virtio_net_set_link_down 1, Free c])"
    by blast
  with reach_connected c have
    "\<exists>s1. ipc_exit st_connected = Some s1 \<and> ipc_exit s1 = Some s1 \<and> ipc s1 = None \<and>
      calls s1 = calls st_connected @
        [Qemu_del_timer 1, Qemu_free_timer 1, Qemu_set_fd_handler 4 None, Close 4,
         Virtio_net_set_link_down 1, Free node0]"
    by simp
  with a b d reach_connected noram_teardown_sample show ?thesis by blast
qed

text \<open>
  C8. A kick message for queue index \<open>q\<close>, received while the Session is CONNECTED: the
  dispatcher \<open>ipc_reader\<close> makes exactly one \<open>virtio_notify\<close> call, for queue \<open>q\<close>, and
  changes nothing else: the only difference between the state before and after is the
  three logged calls (receive, queue lookup, notify). The Session stays CONNECTED, the
  read handler stays registered, no timer is armed or re-armed, the link flag keeps its
  value. The same holds when the host delivers the readiness event on the stable
  descriptor.
\<close>

theorem C8_kick_notifies_once:
  assumes "connected s" and "0 \<le> recv_ret e" and "recv_mtype e = IPC_MESSAGE_TYPE_KICK"
    and "recv_curq e = q"
  shows "\<exists>c s'. ipc s = Some c \<and> ipc_reader e s = Some s' \<and>
           s' = s\<lparr>calls := calls s @
                  [Ipc_client_recv c (recv_ret e), Virtio_get_queue q, Virtio_notify q]\<rparr> \<and>
           (\<forall>q'. count_list (calls s') (Virtio_notify q') =
                  count_list (calls s) (Virtio_notify q') + (if q' = q then 1 else 0)) \<and>
           connected s' \<and> fd_handler s' = fd_handler s \<and> armed s' = armed s \<and>
           link_down s' = link_down s \<and> host_step (Fd_readable (ipc_get_fd c) e) s = Some s'"
  using assms
  by (auto simp: connected_def ipc_reader_def host_step_def virtio_notify_def
        virtio_get_queue_def log_call_def split: option.splits)

theorem C8_kick_witness:
  "connected st_connected \<and> 0 \<le> recv_ret (re_kick 2) \<and>
   recv_mtype (re_kick 2) = IPC_MESSAGE_TYPE_KICK \<and> recv_curq (re_kick 2) = 2 \<and>
   ipc_reader (re_kick 2) st_connected =
     Some (st_connected\<lparr>calls := calls st_connected @
             [Ipc_client_recv node0 0, Virtio_get_queue 2, Virtio_notify 2]\<rparr>) \<and>
   count_list (calls (the (ipc_reader (re_kick 2) st_connected))) (Virtio_notify 2) = 1"
  using C8_kick_notifies_once [of st_connected "re_kick 2" 2]
  by (auto simp: connected_def sample_defs ipc_get_fd_def)

text \<open>
  C9. A connection attempt that fails before the descriptor swap (\<open>ipc_socket\<close> fails,
  \<open>ipc_connect\<close> fails, or the init sequence fails): the only descriptor that
  \<open>connect_to_server\<close> closes is the one it has just opened (none when the socket could
  not be opened); it calls neither \<open>dup2\<close> nor \<open>shutdown\<close>, registers and removes no
  read handler and does not touch the link status. The state after the attempt is the
  state before it except for the logged calls and the table of open descriptors, from
  which only the new descriptor is gone: the Session and its stable descriptor, the
  handler registrations and the link flag are unchanged.
\<close>

theorem C9_failed_attempt_frame:
  assumes "socket_ret e < 0 \<or> connect_ret e \<noteq> 0 \<or> init_sequence_ret e < 0"
    and "ipc s = Some c"
  shows "\<exists>r s' new. connect_to_server e s = Some (r, s') \<and> calls s' = calls s @ new \<and>
           (\<forall>fd. Close fd \<in> set new \<longrightarrow> fd = socket_ret e \<and> 0 \<le> socket_ret e) \<and>
           (\<forall>fd. Shutdown_rdwr fd \<notin> set new) \<and>
           (\<forall>a b x. Dup2 a b x \<notin> set new) \<and>
           (\<forall>fd h. Qemu_set_fd_handler fd h \<notin> set new) \<and>
           (\<forall>x. Virtio_net_set_link_down x \<notin> set new) \<and>
           ipc s' = ipc s \<and> fd_handler s' = fd_handler s \<and> link_down s' = link_down s \<and>
           open_fds s' = (if socket_ret e < 0 then open_fds s else open_fds s - {socket_ret e}) \<and>
           s' = s\<lparr>open_fds := open_fds s', calls := calls s'\<rparr>"
  using assms
  by (auto simp: connect_to_server_def Let_def ipc_socket_def log_call_def perror_def err1_def
        close_def EFAULT_def)

theorem C9_failed_attempt_witness:
  "(socket_ret ce_refused < 0 \<or> connect_ret ce_refused \<noteq> 0 \<or> init_sequence_ret ce_refused < 0) \<and>
   ipc st_disconnected = Some node0 \<and>
   connect_to_server ce_refused st_disconnected =
     Some (- 14, st_disconnected\<lparr>calls := calls st_disconnected @
        [Ipc_socket 5, Ipc_connect 5 ''/tmp/ipc.sock'' 13 (- 1), Perror ''failed to connect'',
         Close 5]\<rparr>)"
  using C9_failed_attempt_frame [of ce_refused st_disconnected node0]
  by (auto simp: sample_defs connect_to_server_def Let_def ipc_socket_def log_call_def
        perror_def err1_def close_def EFAULT_def)

text \<open>
  C10 (as amended). If a step of \<open>init_client\<close> fails (no guest memory region,
  \<open>ipc_socket\<close> fails, \<open>malloc\<close> fails, \<open>ipc_node_init\<close> fails) and the failed call
  has left \<open>errno\<close> non-zero where the result is \<open>-errno\<close> (after \<open>ipc_socket\<close> and
  after \<open>ipc_node_init\<close>), then \<open>ipc_init\<close> returns with the Session slot \<open>vdev->ipc\<close>
  and the timer handle as they were, creates no timer and arms none, and leaves the
  read handlers and the link flag alone. It is not atomic: the three configuration
  fields \<open>socketpath\<close>, \<open>nid\<close> and \<open>cinterval\<close> hold the arguments of the call, which
  are stored before \<open>init_client\<close> runs.
\<close>

theorem C10_failed_init_keeps_slot:
  assumes "init_failed ie" and "init_errno_set ie"
  shows "\<exists>s' new. ipc_init path n ci ie s = Some s' \<and> ipc s' = ipc s \<and> ts s' = ts s \<and>
           live_timers s' = live_timers s \<and> armed s' = armed s \<and>
           fd_handler s' = fd_handler s \<and> link_down s' = link_down s \<and>
           socketpath s' = path \<and> nid s' = n \<and> cinterval s' = ci \<and>
           calls s' = calls s @ new \<and>
           (\<forall>t. Qemu_new_timer_ms t \<notin> set new) \<and> (\<forall>t d. Qemu_mod_timer t d \<notin> set new)"
proof -
  let ?z = "s\<lparr>socketpath := path, nid := n, cinterval := ci\<rparr>"
  from init_failed_frame [OF assms, of ?z] obtain r s1 new where
    "init_client ie ?z = (r, s1)" "r \<noteq> 0" "ipc s1 = ipc ?z" "ts s1 = ts ?z"
    "live_timers s1 = live_timers ?z" "armed s1 = armed ?z" "fd_handler s1 = fd_handler ?z"
    "link_down s1 = link_down ?z" "socketpath s1 = socketpath ?z" "nid s1 = nid ?z"
    "cinterval s1 = cinterval ?z" "calls s1 = calls ?z @ new"
    "\<forall>t. Qemu_new_timer_ms t \<notin> set new" "\<forall>t d. Qemu_mod_timer t d \<notin> set new"
    by blast
  then show ?thesis
    by (simp add: ipc_init_def fprintf_stderr_def log_call_def)
qed

lemma nodefail0_init_sample:
  "ipc_init ''/tmp/ipc.sock'' 7 1 ie_nodefail0 dev0 =
     Some (dev0\<lparr>socketpath := ''/tmp/ipc.sock'', nid := 7, cinterval := 1, ts := 1,
                open_fds := {0, 1, 2, 3, 4}, live_timers := {1}, armed := [1 \<mapsto> 1000],
                calls := [Ipc_socket 4, Malloc True, Ipc_node_init 7 4 3 4096 (- 1),
                          Perror ''failed to allocate a client'', Free node0,
                          Qemu_new_timer_ms 1, Qemu_mod_timer 1 1000]\<rparr>)"
  by (simp add: sample_defs ipc_defs Let_def) auto

lemma sockfail_init_result:
  "ipc_init ''/tmp/ipc.sock'' 7 1 ie_sockfail dev0 =
     Some (dev0\<lparr>socketpath := ''/tmp/ipc.sock'', nid := 7, cinterval := 1,
                calls := [Ipc_socket (- 1), Perror ''failed to open a socket'',
                          Fprintf_stderr (''Fatal error: can'' @ [CHR 0x27] @
                            ''t init ipc node structure'' @ [CHR 0x0A])]\<rparr>)"
  by (simp add: sample_defs ipc_defs Let_def)

lemma nodefail_init_sample:
  "ipc_init ''/tmp/ipc.sock'' 7 1 ie_nodefail dev0 =
     Some (dev0\<lparr>socketpath := ''/tmp/ipc.sock'', nid := 7, cinterval := 1,
                open_fds := {0, 1, 2, 3, 4},
                calls := [Ipc_socket 4, Malloc True, Ipc_node_init 7 4 3 4096 (- 1),
                          Perror ''failed to allocate a client'', Free node0,
                          Fprintf_stderr (''Fatal error: can'' @ [CHR 0x27] @
                            ''t init ipc node structure'' @ [CHR 0x0A])]\<rparr>)"
  by (simp add: sample_defs ipc_defs Let_def) auto

text \<open>
  C10 as stated fails in two ways. The result of \<open>init_client\<close> after a failed
  \<open>ipc_node_init\<close> (and after a failed \<open>ipc_socket\<close>) is \<open>-errno\<close>: when the failed
  call left \<open>errno\<close> at 0 the result is 0, and \<open>ipc_init\<close> goes on to create the timer
  and arm it, with the Session slot still empty. And a failed initialisation is not
  without effect on the device: after a failed \<open>malloc\<close> the configuration fields hold
  the new values and the descriptor that \<open>ipc_socket\<close> opened is still open.
\<close>

theorem C10_timer_armed_counterexample:
  "init_failed ie_nodefail0 \<and>
   ipc_init ''/tmp/ipc.sock'' 7 1 ie_nodefail0 dev0 =
     Some (dev0\<lparr>socketpath := ''/tmp/ipc.sock'', nid := 7, cinterval := 1, ts := 1,
                open_fds := {0, 1, 2, 3, 4}, live_timers := {1}, armed := [1 \<mapsto> 1000],
                calls := [Ipc_socket 4, Malloc True, Ipc_node_init 7 4 3 4096 (- 1),
                          Perror ''failed to allocate a client'', Free node0,
                          Qemu_new_timer_ms 1, Qemu_mod_timer 1 1000]\<rparr>) \<and>
   ipc dev0 = None \<and> live_timers dev0 = {} \<and> armed dev0 1 = None \<and>
   init_failed ie_nomem \<and>
   ipc_init ''/tmp/ipc.sock'' 7 1 ie_nomem dev0 =
     Some (dev0\<lparr>socketpath := ''/tmp/ipc.sock'', nid := 7, cinterval := 1,
                open_fds := {0, 1, 2, 3, 4},
                calls := [Ipc_socket 4, Malloc False, Perror ''failed to malloc'',
                          Fprintf_stderr (''Fatal error: can'' @ [CHR 0x27] @
                            ''t init ipc node structure'' @ [CHR 0x0A])]\<rparr>) \<and>
   socketpath dev0 = [] \<and> cinterval dev0 = 0 \<and> 4 \<notin> open_fds dev0"
proof -
  have "init_failed ie_nodefail0" "init_failed ie_nomem"
    by (simp_all add: init_failed_def sample_defs)
  moreover have "ipc dev0 = None" "live_timers dev0 = {}" "armed dev0 1 = None"
    "socketpath dev0 = []" "cinterval dev0 = 0" "4 \<notin> open_fds dev0"
    by (simp_all add: sample_defs)
  ultimately show ?thesis
    using nodefail0_init_sample nomem_init_sample by simp
qed

theorem C10_failed_init_witness:
  "(init_failed ie_sockfail \<and> init_errno_set ie_sockfail) \<and>
   (\<exists>s'. ipc_init ''/tmp/ipc.sock'' 7 1 ie_sockfail dev0 = Some s' \<and> ipc s' = None \<and>
      ts s' = 0 \<and> live_timers s' = {} \<and> armed s' = Map.empty \<and>
      socketpath s' = ''/tmp/ipc.sock'' \<and> nid s' = 7 \<and> cinterval s' = 1 \<and>
      calls s' = [Ipc_socket (- 1), Perror ''failed to open a socket'',
                  Fprintf_stderr (''Fatal error: can'' @ [CHR 0x27] @
                    ''t init ipc node structure'' @ [CHR 0x0A])]) \<and>
   (init_failed ie_nodefail \<and> init_errno_set ie_nodefail) \<and>
   (\<exists>s'. ipc_init ''/tmp/ipc.sock'' 7 1 ie_nodefail dev0 = Some s' \<and> ipc s' = None \<and>
      ts s' = 0 \<and> live_timers s' = {} \<and> armed s' = Map.empty \<and>
      calls s' = [Ipc_socket 4, Malloc True, Ipc_node_init 7 4 3 4096 (- 1),
                  Perror ''failed to allocate a client'', Free node0,
                  Fprintf_stderr (''Fatal error: can'' @ [CHR 0x27] @
                    ''t init ipc node structure'' @ [CHR 0x0A])])"
proof -
  have a: "init_failed ie_sockfail" "init_errno_set ie_sockfail"
    and b: "init_failed ie_nodefail" "init_errno_set ie_nodefail"
    by (simp_all add: init_failed_def init_errno_set_def sample_defs)
  have z: "ipc dev0 = None" "ts dev0 = 0" "live_timers dev0 = {}" "armed dev0 = Map.empty"
    by (simp_all add: sample_defs)
  from C10_failed_init_keeps_slot [OF a, of "''/tmp/ipc.sock''" 7 1 dev0] z obtain s1 where
    s1: "ipc_init ''/tmp/ipc.sock'' 7 1 ie_sockfail dev0 = Some s1" "ipc s1 = None"
    "ts s1 = 0" "live_timers s1 = {}" "armed s1 = Map.empty"
    "socketpath s1 = ''/tmp/ipc.sock''" "nid s1 = 7" "cinterval s1 = 1"
    by auto
  from s1 sockfail_init_result have
    c1: "calls s1 = [Ipc_socket (- 1), Perror ''failed to open a socket'',
                  Fprintf_stderr (''Fatal error: can'' @ [CHR 0x27] @
                    ''t init ipc node structure'' @ [CHR 0x0A])]"
    by auto
  from C10_failed_init_keeps_slot [OF b, of "''/tmp/ipc.sock''" 7 1 dev0] z obtain s2 where
    s2: "ipc_init ''/tmp/ipc.sock'' 7 1 ie_nodefail dev0 = Some s2" "ipc s2 = None"
    "ts s2 = 0" "live_timers s2 = {}" "armed s2 = Map.empty"
    by auto
  from s2 nodefail_init_sample have
    c2: "calls s2 = [Ipc_socket 4, Malloc True, Ipc_node_init 7 4 3 4096 (- 1),
                  Perror ''failed to allocate a client'', Free node0,
                  Fprintf_stderr (''Fatal error: can'' @ [CHR 0x27] @
                    ''t init ipc node structure'' @ [CHR 0x0A])]"
    by auto
  from a b s1 c1 s2 c2 show ?thesis by blast
qed

end
